theory Spec2Isabelle
  imports Complex_Main "HOL-Library.AList"
begin

section \<open>The miner exporter: one polling cycle and the driver loop\<close>

text \<open>
  A shallow embedding of \<^verbatim>\<open>src/miner_exporter.py\<close>. The function \<^verbatim>\<open>stats\<close> reads a
  validator over JSON-RPC and writes labelled samples into the process-wide Prometheus
  metrics; the \<^verbatim>\<open>__main__\<close> block calls it forever.

  Conventions of the model.
  \<^item> Every metric family is a finite map from its tuple of label values to the sample;
    \<^verbatim>\<open>labels(...).set(v)\<close> is a map update, \<^verbatim>\<open>clear()\<close> is the empty map.
  \<^item> One call of the RPC client either returns a value or raises. All calls inside
    \<^verbatim>\<open>stats\<close> sit under a bare \<^verbatim>\<open>except:\<close>, so the class of the error is never
    looked at: a response is an \<open>option\<close>, \<open>None\<close> meaning that the call raised.
  \<^item> The JSON objects have the shapes the client documents; they are records.
    Numbers that Python hands to \<^verbatim>\<open>float()\<close> are reals here: the model computes the
    quotients of the source in the reals, not in IEEE doubles.
  \<^item> Errors that leave a function are values (\<open>Raised e\<close>), together with the
    registry as it stands at the moment of the raise.
\<close>

subsection \<open>Data\<close>

datatype py_error = ValueError | IndexError | AttributeError | ZeroDivisionError

datatype outcome = Returned | Raised py_error

datatype rpc_call =
    Addr | Name | InfoHeight | InConsensus
  | LedgerValidators | LedgerValidatorsFor string | LedgerBalance string
  | Version | BlockAge | HbbftPerf | PeerBookSelf

datatype event = Call rpc_call | LogError string | Sleep nat

record height_info =
  hi_height :: int
  hi_sync_height :: "int option"

record ledger_entry =
  le_address :: string
  le_name :: string
  le_owner_address :: string
  le_tenure_penalty :: real
  le_dkg_penalty :: real
  le_performance_penalty :: real
  le_total_penalty :: real
  le_last_heartbeat :: int
  le_status :: string

record balance_result =
  br_balance :: int

record consensus_member =
  cm_address :: string
  cm_name :: string
  cm_penalty :: real
  cm_bba_completions :: int
  cm_seen_votes :: int
  cm_last_bba :: int
  cm_last_seen :: int
  cm_tenure :: int

record hbbft_perf =
  hp_blocks_since_epoch :: int
  hp_max_seen :: int
  hp_consensus_members :: "consensus_member list"

record peer_book_entry =
  pb_connection_count :: int
  pb_sessions :: "string list"

text \<open>
  The module-level options (lines 22 to 30) and the host name (line 70). Reading them
  from the environment is outside the model; the update period is taken non-negative.
\<close>

record config =
  UPDATE_PERIOD :: nat
  COLLECT_SYSTEM_USAGE :: bool
  ALL_HBBFT :: bool
  ALL_PENALTIES :: bool
  hostname :: string

text \<open>
  What the RPC client answers during one cycle, one field per call site of \<^verbatim>\<open>stats\<close>.
  With \<^verbatim>\<open>ALL_PENALTIES\<close> the source calls \<^verbatim>\<open>miner.ledger_validators()\<close> twice (lines 121
  and 124); each call is a request of its own, so each has its own answer.
\<close>

record miner =
  rpc_addr :: "string option"
  rpc_name :: "string option"
  rpc_info_height :: "height_info option"
  rpc_in_consensus :: "bool option"
  rpc_ledger_validators :: "ledger_entry list option"
  rpc_ledger_validators_again :: "ledger_entry list option"
  rpc_ledger_validators_for :: "string \<Rightarrow> ledger_entry option"
  rpc_ledger_balance :: "string \<Rightarrow> balance_result option"
  rpc_version :: "string option"
  rpc_block_age :: "real option"
  rpc_hbbft_perf :: "hbbft_perf option"
  rpc_peer_book_self :: "peer_book_entry list option"

text \<open>What \<^verbatim>\<open>psutil\<close> reports during one cycle (lines 96 to 101).\<close>

record host =
  cpu_percent :: real
  virtual_memory_percent :: real
  cpu_steal :: real
  disk_used :: int
  disk_free :: int
  disk_total :: int
  process_iter :: "nat list"

text \<open>
  The metrics of lines 33 to 67. The summary \<^verbatim>\<open>SCRAPE_TIME\<close> holds a count and a sum;
  the info family \<^verbatim>\<open>VALIDATOR_VERSION\<close> holds a dictionary per label.
\<close>

record registry =
  SCRAPE_TIME_count :: nat
  SCRAPE_TIME_sum :: real
  CHAIN_STATS :: "string \<rightharpoonup> real"
  VAL :: "(string \<times> string) \<rightharpoonup> real"
  INCON :: "string \<rightharpoonup> real"
  BLOCKAGE :: "string \<rightharpoonup> real"
  HEARTBEAT :: "(string \<times> string) \<rightharpoonup> real"
  HBBFT_PERF :: "(string \<times> string \<times> string) \<rightharpoonup> real"
  CONNECTIONS :: "(string \<times> string) \<rightharpoonup> real"
  SESSIONS :: "(string \<times> string) \<rightharpoonup> real"
  LEDGER_PENALTY :: "(string \<times> string \<times> string \<times> string) \<rightharpoonup> real"
  VALIDATOR_VERSION :: "string \<rightharpoonup> (string \<times> string) list"
  BALANCE :: "string \<rightharpoonup> real"
  SYSTEM_USAGE :: "(string \<times> string) \<rightharpoonup> real"

definition empty_registry :: registry where
  "empty_registry =
     \<lparr>SCRAPE_TIME_count = 0, SCRAPE_TIME_sum = 0, CHAIN_STATS = Map.empty, VAL = Map.empty,
      INCON = Map.empty, BLOCKAGE = Map.empty, HEARTBEAT = Map.empty,
      HBBFT_PERF = Map.empty, CONNECTIONS = Map.empty, SESSIONS = Map.empty,
      LEDGER_PENALTY = Map.empty, VALIDATOR_VERSION = Map.empty, BALANCE = Map.empty,
      SYSTEM_USAGE = Map.empty\<rparr>"

text \<open>
  The variable \<^verbatim>\<open>penalty_ledger\<close> of \<^verbatim>\<open>stats\<close> holds \<^verbatim>\<open>None\<close>, the list that line 121
  binds, or the dictionary of lines 124 and 126. A dictionary keeps insertion order:
  it is an association list with distinct keys.
\<close>

datatype ledger_var =
    LNone
  | LList "ledger_entry list"
  | LDict "(string \<times> ledger_entry) list"

record fetched =
  height_info :: "height_info option"
  in_consensus :: "bool option"
  penalty_ledger :: ledger_var
  owner :: "string option"
  balance :: "real option"
  version :: "string option"
  block_age :: "real option"
  hbbft_perf :: "hbbft_perf option"
  peer_book_info :: "peer_book_entry list option"

text \<open>One cycle as the driver sees it: the answers, the host and the time it took.\<close>

record cycle =
  cy_miner :: miner
  cy_host :: host
  cy_elapsed :: real

datatype proc = Running | Exited py_error

subsection \<open>Primitives of Python and of the metrics library\<close>

text \<open>Python's \<^verbatim>\<open>/\<close> on floats raises on a zero divisor.\<close>

definition truediv :: "real \<Rightarrow> real \<Rightarrow> py_error + real" where
  "truediv a b = (if b = 0 then Inl ZeroDivisionError else Inr (a / b))"

text \<open>
  \<^verbatim>\<open>family.labels(k)\<close> creates the child of \<open>k\<close> with the value 0 when there is none;
  \<^verbatim>\<open>.set(v)\<close> then stores \<open>v\<close>. In \<^verbatim>\<open>family.labels(k).set(a / b)\<close> the child is
  created before the argument is evaluated, so it exists even when the division raises.
\<close>

definition labels :: "('k \<rightharpoonup> real) \<Rightarrow> 'k \<Rightarrow> ('k \<rightharpoonup> real)" where
  "labels g k = (case g k of None \<Rightarrow> g(k \<mapsto> 0) | Some v \<Rightarrow> g)"

definition gauge_set :: "('k \<rightharpoonup> real) \<Rightarrow> 'k \<Rightarrow> real \<Rightarrow> ('k \<rightharpoonup> real)" where
  "gauge_set g k v = (labels g k)(k \<mapsto> v)"

definition gauge_set_div :: "('k \<rightharpoonup> real) \<Rightarrow> 'k \<Rightarrow> real \<Rightarrow> real \<Rightarrow> outcome \<times> ('k \<rightharpoonup> real)" where
  "gauge_set_div g k a b =
     (case truediv a b of
        Inl e \<Rightarrow> (Raised e, labels g k)
      | Inr v \<Rightarrow> (Returned, (labels g k)(k \<mapsto> v)))"

text \<open>\<^verbatim>\<open>Summary.observe\<close>, called by the timer of the decorator \<^verbatim>\<open>@SCRAPE_TIME.time()\<close>.\<close>

definition observe :: "real \<Rightarrow> registry \<Rightarrow> registry" where
  "observe d r = r\<lparr>SCRAPE_TIME_count := SCRAPE_TIME_count r + 1,
                   SCRAPE_TIME_sum := SCRAPE_TIME_sum r + d\<rparr>"

subsection \<open>Host usage (lines 93 to 101)\<close>

definition collect_system_usage :: "config \<Rightarrow> host \<Rightarrow> registry \<Rightarrow> outcome \<times> registry" where
  "collect_system_usage cfg h r =
     (if COLLECT_SYSTEM_USAGE cfg then
        (let g1 = gauge_set (SYSTEM_USAGE r) (''CPU'', hostname cfg) (cpu_percent h);
             g2 = gauge_set g1 (''Memory'', hostname cfg) (virtual_memory_percent h);
             g3 = gauge_set g2 (''CPU-Steal'', hostname cfg) (cpu_steal h)
         in case gauge_set_div g3 (''Disk Used'', hostname cfg)
                   (real_of_int (disk_used h)) (real_of_int (disk_total h)) of
              (Raised e, g4) \<Rightarrow> (Raised e, r\<lparr>SYSTEM_USAGE := g4\<rparr>)
            | (Returned, g4) \<Rightarrow>
                (case gauge_set_div g4 (''Disk Free'', hostname cfg)
                        (real_of_int (disk_free h)) (real_of_int (disk_total h)) of
                   (Raised e, g5) \<Rightarrow> (Raised e, r\<lparr>SYSTEM_USAGE := g5\<rparr>)
                 | (Returned, g5) \<Rightarrow>
                     (Returned,
                      r\<lparr>SYSTEM_USAGE :=
                          gauge_set g5 (''Process-Count'', hostname cfg)
                            (real (length (process_iter h)))\<rparr>)))
      else (Returned, r))"

subsection \<open>The fetches (lines 106 to 165)\<close>

text \<open>A call under \<^verbatim>\<open>try\<close> with a bare \<^verbatim>\<open>except:\<close> that logs.\<close>

definition soft_fetch :: "rpc_call \<Rightarrow> 'a option \<Rightarrow> string \<Rightarrow> 'a option \<times> event list" where
  "soft_fetch c resp msg =
     (case resp of
        None \<Rightarrow> (None, [Call c, LogError msg])
      | Some v \<Rightarrow> (Some v, [Call c]))"

text \<open>The dictionary comprehension of line 124: a later entry replaces an earlier one
  with the same address and keeps its place.\<close>

definition staked_dict :: "ledger_entry list \<Rightarrow> (string \<times> ledger_entry) list" where
  "staked_dict vs =
     foldl (\<lambda>d v. AList.update (le_address v) v d) []
       (filter (\<lambda>v. le_status v = ''staked'') vs)"

definition fetch_penalty_ledger :: "config \<Rightarrow> miner \<Rightarrow> string \<Rightarrow> ledger_var \<times> event list" where
  "fetch_penalty_ledger cfg m addr =
     (if ALL_PENALTIES cfg then
        (case rpc_ledger_validators m of
           None \<Rightarrow> (LNone, [Call LedgerValidators, LogError ''validator fetch failure''])
         | Some l1 \<Rightarrow>
             (case rpc_ledger_validators_again m of
                None \<Rightarrow>
                  (LList l1,
                   [Call LedgerValidators, Call LedgerValidators,
                    LogError ''validator fetch failure''])
              | Some l2 \<Rightarrow>
                  (LDict (staked_dict l2), [Call LedgerValidators, Call LedgerValidators])))
      else
        (case rpc_ledger_validators_for m addr of
           None \<Rightarrow>
             (LNone, [Call (LedgerValidatorsFor addr), LogError ''validator fetch failure''])
         | Some e \<Rightarrow> (LDict [(addr, e)], [Call (LedgerValidatorsFor addr)])))"

text \<open>Lines 131 to 133. A string is never an element of a list of entries.\<close>

definition resolve_owner :: "ledger_var \<Rightarrow> string \<Rightarrow> string option" where
  "resolve_owner pl addr =
     (case pl of
        LNone \<Rightarrow> None
      | LList l \<Rightarrow> None
      | LDict d \<Rightarrow>
          (case map_of d addr of
             None \<Rightarrow> None
           | Some e \<Rightarrow> Some (le_owner_address e)))"

text \<open>Lines 135 to 141.\<close>

definition fetch_balance :: "miner \<Rightarrow> string option \<Rightarrow> real option \<times> event list" where
  "fetch_balance m ow =
     (case ow of
        None \<Rightarrow> (None, [])
      | Some a \<Rightarrow>
          (case rpc_ledger_balance m a of
             None \<Rightarrow> (None, [Call (LedgerBalance a), LogError ''owner balance fetch failure''])
           | Some b \<Rightarrow> (Some (real_of_int (br_balance b) / 100000000), [Call (LedgerBalance a)])))"

definition fetch_all :: "config \<Rightarrow> miner \<Rightarrow> string \<Rightarrow> fetched \<times> event list" where
  "fetch_all cfg m addr =
     (let (hi, ev1) = soft_fetch InfoHeight (rpc_info_height m) ''chain height fetch failure'';
          (ic, ev2) = soft_fetch InConsensus (rpc_in_consensus m) ''in consensus fetch failure'';
          (pl, ev3) = fetch_penalty_ledger cfg m addr;
          ow = resolve_owner pl addr;
          (bal, ev4) = fetch_balance m ow;
          (ver, ev5) = soft_fetch Version (rpc_version m) ''version fetch error'';
          (ba, ev6) = soft_fetch BlockAge (rpc_block_age m) ''block age fetch failure'';
          (hp, ev7) = soft_fetch HbbftPerf (rpc_hbbft_perf m) ''hbbft perf fetch failure'';
          (pb, ev8) = soft_fetch PeerBookSelf (rpc_peer_book_self m)
                        ''peer book self fetch failure''
      in (\<lparr>height_info = hi, in_consensus = ic, penalty_ledger = pl, owner = ow,
           balance = bal, version = ver, block_age = ba, hbbft_perf = hp,
           peer_book_info = pb\<rparr>,
          ev1 @ ev2 @ ev3 @ ev4 @ ev5 @ ev6 @ ev7 @ ev8))"

subsection \<open>Publication (lines 171 to 228)\<close>

definition publish_height :: "string \<Rightarrow> height_info option \<Rightarrow> registry \<Rightarrow> registry" where
  "publish_height name hi r =
     (case hi of
        None \<Rightarrow> r
      | Some h \<Rightarrow>
          (let chain_height = hi_height h;
               val_height = (case hi_sync_height h of None \<Rightarrow> chain_height | Some s \<Rightarrow> s)
           in r\<lparr>VAL := gauge_set (VAL r) (''Height'', name) (real_of_int val_height),
                CHAIN_STATS := gauge_set (CHAIN_STATS r) ''Height'' (real_of_int chain_height)\<rparr>))"

definition publish_in_consensus :: "string \<Rightarrow> bool option \<Rightarrow> registry \<Rightarrow> registry" where
  "publish_in_consensus name ic r =
     (case ic of
        None \<Rightarrow> r
      | Some b \<Rightarrow> r\<lparr>INCON := gauge_set (INCON r) name (if b then 1 else 0)\<rparr>)"

definition publish_balance :: "string \<Rightarrow> real option \<Rightarrow> registry \<Rightarrow> registry" where
  "publish_balance name bal r =
     (case bal of
        None \<Rightarrow> r
      | Some b \<Rightarrow> r\<lparr>BALANCE := gauge_set (BALANCE r) name b\<rparr>)"

definition publish_block_age :: "string \<Rightarrow> real option \<Rightarrow> registry \<Rightarrow> registry" where
  "publish_block_age name ba r =
     (case ba of
        None \<Rightarrow> r
      | Some b \<Rightarrow> r\<lparr>BLOCKAGE := gauge_set (BLOCKAGE r) name b\<rparr>)"

definition publish_version :: "string \<Rightarrow> string option \<Rightarrow> registry \<Rightarrow> registry" where
  "publish_version name ver r =
     (case ver of
        None \<Rightarrow> r
      | Some v \<Rightarrow> r\<lparr>VALIDATOR_VERSION := (VALIDATOR_VERSION r)(name \<mapsto> [(''version'', v)])\<rparr>)"

text \<open>The body of the loop of lines 196 to 203, for one entry.\<close>

definition publish_ledger_entry :: "ledger_entry \<Rightarrow> registry \<Rightarrow> outcome \<times> registry" where
  "publish_ledger_entry e r =
     (let n = le_name e; a = le_address e;
          g1 = gauge_set (LEDGER_PENALTY r) (''ledger_penalties'', ''tenure'', n, a)
                 (le_tenure_penalty e);
          g2 = gauge_set g1 (''ledger_penalties'', ''dkg'', n, a) (le_dkg_penalty e);
          g3 = gauge_set g2 (''ledger_penalties'', ''performance'', n, a)
                 (le_performance_penalty e);
          g4 = gauge_set g3 (''ledger_penalties'', ''total'', n, a) (le_total_penalty e);
          hb = (\<lambda>r'. r'\<lparr>HEARTBEAT :=
                          gauge_set (HEARTBEAT r') (n, a) (real_of_int (le_last_heartbeat e))\<rparr>)
      in if le_tenure_penalty e > 0 then
           (case gauge_set_div g4 (''ledger_penalties'', ''perf_tenure_ratio'', n, a)
                   (le_performance_penalty e + le_dkg_penalty e) (le_tenure_penalty e) of
              (Raised x, g5) \<Rightarrow> (Raised x, r\<lparr>LEDGER_PENALTY := g5\<rparr>)
            | (Returned, g5) \<Rightarrow> (Returned, hb (r\<lparr>LEDGER_PENALTY := g5\<rparr>)))
         else (Returned, hb (r\<lparr>LEDGER_PENALTY := g4\<rparr>)))"

fun publish_ledger_items :: "(string \<times> ledger_entry) list \<Rightarrow> registry \<Rightarrow> outcome \<times> registry" where
  "publish_ledger_items [] r = (Returned, r)"
| "publish_ledger_items ((address, ledger_entry) # rest) r =
     (case publish_ledger_entry ledger_entry r of
        (Raised x, r') \<Rightarrow> (Raised x, r')
      | (Returned, r') \<Rightarrow> publish_ledger_items rest r')"

text \<open>Lines 192 to 203. A list has no \<^verbatim>\<open>items\<close>: the call raises after the clear.\<close>

definition publish_penalty_ledger :: "ledger_var \<Rightarrow> registry \<Rightarrow> outcome \<times> registry" where
  "publish_penalty_ledger pl r =
     (case pl of
        LNone \<Rightarrow> (Returned, r)
      | LList l \<Rightarrow> (Raised AttributeError, r\<lparr>LEDGER_PENALTY := Map.empty\<rparr>)
      | LDict d \<Rightarrow> publish_ledger_items d (r\<lparr>LEDGER_PENALTY := Map.empty\<rparr>))"

text \<open>The body of the loop of lines 213 to 222, for one member.\<close>

definition publish_member ::
  "config \<Rightarrow> string \<Rightarrow> int \<Rightarrow> int \<Rightarrow> consensus_member \<Rightarrow> registry \<Rightarrow> registry" where
  "publish_member cfg addr bba_tot seen_tot member r =
     (if cm_address member = addr \<or> ALL_HBBFT cfg then
        (let n = cm_name member;
             g1 = gauge_set (HBBFT_PERF r) (''hbbft_perf'', ''Penalty'', n) (cm_penalty member);
             g2 = gauge_set g1 (''hbbft_perf'', ''BBA_Total'', n) (real_of_int bba_tot);
             g3 = gauge_set g2 (''hbbft_perf'', ''BBA_Votes'', n)
                    (real_of_int (cm_bba_completions member));
             g4 = gauge_set g3 (''hbbft_perf'', ''Seen_Total'', n) (real_of_int seen_tot);
             g5 = gauge_set g4 (''hbbft_perf'', ''Seen_Votes'', n)
                    (real_of_int (cm_seen_votes member));
             g6 = gauge_set g5 (''hbbft_perf'', ''BBA_Last'', n)
                    (real_of_int (cm_last_bba member));
             g7 = gauge_set g6 (''hbbft_perf'', ''Seen_Last'', n)
                    (real_of_int (cm_last_seen member));
             g8 = gauge_set g7 (''hbbft_perf'', ''Tenure'', n) (real_of_int (cm_tenure member))
         in r\<lparr>HBBFT_PERF := g8\<rparr>)
      else r)"

definition publish_hbbft :: "config \<Rightarrow> string \<Rightarrow> hbbft_perf option \<Rightarrow> registry \<Rightarrow> registry" where
  "publish_hbbft cfg addr hp r =
     (case hp of
        None \<Rightarrow> r
      | Some p \<Rightarrow>
          fold (publish_member cfg addr (hp_blocks_since_epoch p) (hp_max_seen p))
            (hp_consensus_members p) (r\<lparr>HBBFT_PERF := Map.empty\<rparr>))"

text \<open>Lines 224 to 228. \<^verbatim>\<open>peer_book_info[0]\<close> raises on the empty list.\<close>

definition publish_peer_book ::
  "string \<Rightarrow> peer_book_entry list option \<Rightarrow> registry \<Rightarrow> outcome \<times> registry" where
  "publish_peer_book name pb r =
     (case pb of
        None \<Rightarrow> (Returned, r)
      | Some [] \<Rightarrow> (Raised IndexError, r)
      | Some (p # ps) \<Rightarrow>
          (Returned,
           r\<lparr>CONNECTIONS :=
                gauge_set (CONNECTIONS r) (''connections'', name)
                  (real_of_int (pb_connection_count p)),
             SESSIONS :=
                gauge_set (SESSIONS r) (''sessions'', name) (real (length (pb_sessions p)))\<rparr>))"

definition publish :: "config \<Rightarrow> string \<Rightarrow> string \<Rightarrow> fetched \<Rightarrow> registry \<Rightarrow> outcome \<times> registry" where
  "publish cfg addr name f r =
     (let r1 = publish_height name (height_info f) r;
          r2 = publish_in_consensus name (in_consensus f) r1;
          r3 = publish_balance name (balance f) r2;
          r4 = publish_block_age name (block_age f) r3;
          r5 = publish_version name (version f) r4
      in case publish_penalty_ledger (penalty_ledger f) r5 of
           (Raised x, r6) \<Rightarrow> (Raised x, r6)
         | (Returned, r6) \<Rightarrow>
             publish_peer_book name (peer_book_info f)
               (publish_hbbft cfg addr (hbbft_perf f) r6))"

subsection \<open>The cycle and the driver\<close>

text \<open>The body of \<^verbatim>\<open>stats\<close>, lines 75 to 228.\<close>

definition stats_body ::
  "config \<Rightarrow> host \<Rightarrow> miner \<Rightarrow> registry \<Rightarrow> outcome \<times> event list \<times> registry" where
  "stats_body cfg h m r =
     (case rpc_addr m of
        None \<Rightarrow> (Returned, [Call Addr, LogError ''can't get validator's address''], r)
      | Some addr \<Rightarrow>
          (case rpc_name m of
             None \<Rightarrow>
               (Returned, [Call Addr, Call Name, LogError ''can't get validator's name''], r)
           | Some name \<Rightarrow>
               (case collect_system_usage cfg h r of
                  (Raised x, r1) \<Rightarrow> (Raised x, [Call Addr, Call Name], r1)
                | (Returned, r1) \<Rightarrow>
                    (case fetch_all cfg m addr of
                       (f, evs) \<Rightarrow>
                         (case publish cfg addr name f r1 of
                            (out, r2) \<Rightarrow> (out, [Call Addr, Call Name] @ evs, r2))))))"

text \<open>
  \<^verbatim>\<open>stats\<close> as decorated on line 73: the timer observes the duration when the body
  is left, by a return or by an error.
\<close>

definition stats ::
  "config \<Rightarrow> host \<Rightarrow> miner \<Rightarrow> real \<Rightarrow> registry \<Rightarrow> outcome \<times> event list \<times> registry" where
  "stats cfg h m elapsed r =
     (case stats_body cfg h m r of (out, evs, r') \<Rightarrow> (out, evs, observe elapsed r'))"

text \<open>
  The loop of lines 234 to 242, run on the cycles the environment supplies. The loop
  has no exit of its own: \<open>Running\<close> says that it stands before its next iteration,
  \<open>Exited e\<close> that the error \<open>e\<close> left it, which ends the process.
\<close>

fun main_loop :: "config \<Rightarrow> cycle list \<Rightarrow> registry \<Rightarrow> proc \<times> event list \<times> registry" where
  "main_loop cfg [] r = (Running, [], r)"
| "main_loop cfg (c # cs) r =
     (case stats cfg (cy_host c) (cy_miner c) (cy_elapsed c) r of
        (Returned, evs, r') \<Rightarrow>
          (case main_loop cfg cs r' of
             (p, evs', r'') \<Rightarrow> (p, evs @ [Sleep (UPDATE_PERIOD cfg)] @ evs', r''))
      | (Raised e, evs, r') \<Rightarrow>
          (if e = ValueError then
             (case main_loop cfg cs r' of
                (p, evs', r'') \<Rightarrow>
                  (p, evs @ [LogError ''stats loop failed.'', Sleep (UPDATE_PERIOD cfg)] @ evs',
                   r''))
           else (Exited e, evs, r')))"

subsection \<open>Reading the published output\<close>

text \<open>
  The entity a sample belongs to, by the label names of lines 48 to 50 and 57 to 59:
  a sample of \<^verbatim>\<open>validator_ledger\<close> belongs to a validator name and address, a sample
  of \<^verbatim>\<open>validator_hbbft_perf\<close> to a validator name.
\<close>

definition ledger_entity :: "string \<times> string \<times> string \<times> string \<Rightarrow> string \<times> string" where
  "ledger_entity k = (case k of (resource_type, subtype, validator_name, validator_address) \<Rightarrow>
     (validator_name, validator_address))"

definition hbbft_entity :: "string \<times> string \<times> string \<Rightarrow> string" where
  "hbbft_entity k = (case k of (resource_type, subtype, validator_name) \<Rightarrow> validator_name)"

subsection \<open>Example inputs\<close>

text \<open>
  Example inputs: a validator \<open>A1\<close> named \<open>N1\<close> with owner \<open>O1\<close>, a second staked
  validator \<open>A2\<close>, and a client whose every call raises.
\<close>

definition ex_config :: config where
  "ex_config = \<lparr>UPDATE_PERIOD = 30, COLLECT_SYSTEM_USAGE = False, ALL_HBBFT = False,
                 ALL_PENALTIES = False, hostname = ''host1''\<rparr>"

definition ex_host :: host where
  "ex_host = \<lparr>cpu_percent = 12, virtual_memory_percent = 40, cpu_steal = 0, disk_used = 30,
               disk_free = 70, disk_total = 100, process_iter = [1, 2, 3]\<rparr>"

definition ex_entry :: ledger_entry where
  "ex_entry = \<lparr>le_address = ''A1'', le_name = ''N1'', le_owner_address = ''O1'',
                le_tenure_penalty = 10, le_dkg_penalty = 2, le_performance_penalty = 3,
                le_total_penalty = 15, le_last_heartbeat = 7, le_status = ''staked''\<rparr>"

definition ex_entry2 :: ledger_entry where
  "ex_entry2 = \<lparr>le_address = ''A2'', le_name = ''N2'', le_owner_address = ''O2'',
                 le_tenure_penalty = 0, le_dkg_penalty = 2, le_performance_penalty = 3,
                 le_total_penalty = 5, le_last_heartbeat = 9, le_status = ''staked''\<rparr>"

definition ex_member :: consensus_member where
  "ex_member = \<lparr>cm_address = ''A1'', cm_name = ''N1'', cm_penalty = 1, cm_bba_completions = 4,
                 cm_seen_votes = 5, cm_last_bba = 1, cm_last_seen = 2, cm_tenure = 3\<rparr>"

definition ex_member2 :: consensus_member where
  "ex_member2 = \<lparr>cm_address = ''A2'', cm_name = ''N2'', cm_penalty = 0, cm_bba_completions = 6,
                  cm_seen_votes = 6, cm_last_bba = 0, cm_last_seen = 0, cm_tenure = 8\<rparr>"

definition ex_miner_down :: miner where
  "ex_miner_down =
     \<lparr>rpc_addr = None, rpc_name = None, rpc_info_height = None, rpc_in_consensus = None,
      rpc_ledger_validators = None, rpc_ledger_validators_again = None,
      rpc_ledger_validators_for = (\<lambda>a. None), rpc_ledger_balance = (\<lambda>a. None),
      rpc_version = None, rpc_block_age = None, rpc_hbbft_perf = None,
      rpc_peer_book_self = None\<rparr>"

definition ex_miner :: miner where
  "ex_miner =
     \<lparr>rpc_addr = Some ''A1'', rpc_name = Some ''N1'',
      rpc_info_height = Some \<lparr>hi_height = 100, hi_sync_height = Some 95\<rparr>,
      rpc_in_consensus = Some True,
      rpc_ledger_validators = Some [ex_entry, ex_entry2],
      rpc_ledger_validators_again = Some [ex_entry, ex_entry2],
      rpc_ledger_validators_for = (\<lambda>a. if a = ''A1'' then Some ex_entry else None),
      rpc_ledger_balance =
        (\<lambda>a. if a = ''O1'' then Some \<lparr>br_balance = 250000000\<rparr> else None),
      rpc_version = Some ''1.0'', rpc_block_age = Some 12,
      rpc_hbbft_perf =
        Some \<lparr>hp_blocks_since_epoch = 20, hp_max_seen = 30,
              hp_consensus_members = [ex_member, ex_member2]\<rparr>,
      rpc_peer_book_self = Some [\<lparr>pb_connection_count = 5, pb_sessions = [''s1'', ''s2'']\<rparr>]\<rparr>"

section \<open>Properties\<close>

subsection \<open>The primitives and the host usage\<close>

lemma gauge_set_eq: "gauge_set g k v = g(k \<mapsto> v)"
  by (simp add: gauge_set_def labels_def split: option.splits)

lemma gauge_set_div_ok: "b \<noteq> 0 \<Longrightarrow> gauge_set_div g k a b = (Returned, g(k \<mapsto> a / b))"
  by (simp add: gauge_set_div_def truediv_def labels_def split: option.splits)

lemma gauge_set_div_zero: "gauge_set_div g k a 0 = (Raised ZeroDivisionError, labels g k)"
  by (simp add: gauge_set_div_def truediv_def)

lemma collect_system_usage_off:
  "\<not> COLLECT_SYSTEM_USAGE cfg \<Longrightarrow> collect_system_usage cfg h r = (Returned, r)"
  by (simp add: collect_system_usage_def)

lemma collect_system_usage_on:
  "COLLECT_SYSTEM_USAGE cfg \<Longrightarrow> disk_total h \<noteq> 0 \<Longrightarrow>
   collect_system_usage cfg h r =
     (Returned,
      r\<lparr>SYSTEM_USAGE := (SYSTEM_USAGE r)
          ((''CPU'', hostname cfg) \<mapsto> cpu_percent h,
           (''Memory'', hostname cfg) \<mapsto> virtual_memory_percent h,
           (''CPU-Steal'', hostname cfg) \<mapsto> cpu_steal h,
           (''Disk Used'', hostname cfg) \<mapsto> real_of_int (disk_used h) / real_of_int (disk_total h),
           (''Disk Free'', hostname cfg) \<mapsto> real_of_int (disk_free h) / real_of_int (disk_total h),
           (''Process-Count'', hostname cfg) \<mapsto> real (length (process_iter h)))\<rparr>)"
  by (simp add: collect_system_usage_def gauge_set_eq gauge_set_div_ok)

lemma collect_system_usage_zero:
  "COLLECT_SYSTEM_USAGE cfg \<Longrightarrow> disk_total h = 0 \<Longrightarrow>
   collect_system_usage cfg h r =
     (Raised ZeroDivisionError,
      r\<lparr>SYSTEM_USAGE := labels ((SYSTEM_USAGE r)
          ((''CPU'', hostname cfg) \<mapsto> cpu_percent h,
           (''Memory'', hostname cfg) \<mapsto> virtual_memory_percent h,
           (''CPU-Steal'', hostname cfg) \<mapsto> cpu_steal h)) (''Disk Used'', hostname cfg)\<rparr>)"
  by (simp add: collect_system_usage_def gauge_set_eq gauge_set_div_zero)

lemma collect_system_usage_outcome:
  "fst (collect_system_usage cfg h r) =
     (if COLLECT_SYSTEM_USAGE cfg \<and> disk_total h = 0 then Raised ZeroDivisionError else Returned)"
  by (cases "COLLECT_SYSTEM_USAGE cfg"; cases "disk_total h = 0")
     (simp_all add: collect_system_usage_zero collect_system_usage_on collect_system_usage_off)

lemma collect_system_usage_frame:
  "BALANCE (snd (collect_system_usage cfg h r)) = BALANCE r"
  "HEARTBEAT (snd (collect_system_usage cfg h r)) = HEARTBEAT r"
  "LEDGER_PENALTY (snd (collect_system_usage cfg h r)) = LEDGER_PENALTY r"
  "HBBFT_PERF (snd (collect_system_usage cfg h r)) = HBBFT_PERF r"
  by (cases "COLLECT_SYSTEM_USAGE cfg"; cases "disk_total h = 0";
      simp add: collect_system_usage_zero collect_system_usage_on collect_system_usage_off)+

subsection \<open>Publishing the penalty ledger\<close>

lemma ledger_entity_simp [simp]: "ledger_entity (rt, st, n, a) = (n, a)"
  by (simp add: ledger_entity_def)

lemma hbbft_entity_simp [simp]: "hbbft_entity (rt, st, n) = n"
  by (simp add: hbbft_entity_def)

lemma publish_ledger_entry_eq:
  "publish_ledger_entry e r =
     (Returned,
      r\<lparr>LEDGER_PENALTY :=
           (if le_tenure_penalty e > 0 then
              (LEDGER_PENALTY r)
                ((''ledger_penalties'', ''tenure'', le_name e, le_address e) \<mapsto> le_tenure_penalty e,
                 (''ledger_penalties'', ''dkg'', le_name e, le_address e) \<mapsto> le_dkg_penalty e,
                 (''ledger_penalties'', ''performance'', le_name e, le_address e) \<mapsto>
                    le_performance_penalty e,
                 (''ledger_penalties'', ''total'', le_name e, le_address e) \<mapsto> le_total_penalty e,
                 (''ledger_penalties'', ''perf_tenure_ratio'', le_name e, le_address e) \<mapsto>
                    (le_performance_penalty e + le_dkg_penalty e) / le_tenure_penalty e)
            else
              (LEDGER_PENALTY r)
                ((''ledger_penalties'', ''tenure'', le_name e, le_address e) \<mapsto> le_tenure_penalty e,
                 (''ledger_penalties'', ''dkg'', le_name e, le_address e) \<mapsto> le_dkg_penalty e,
                 (''ledger_penalties'', ''performance'', le_name e, le_address e) \<mapsto>
                    le_performance_penalty e,
                 (''ledger_penalties'', ''total'', le_name e, le_address e) \<mapsto> le_total_penalty e)),
         HEARTBEAT :=
           (HEARTBEAT r)((le_name e, le_address e) \<mapsto> real_of_int (le_last_heartbeat e))\<rparr>)"
  by (simp add: publish_ledger_entry_def gauge_set_eq gauge_set_div_ok Let_def)

lemma publish_ledger_entry_returns: "fst (publish_ledger_entry e r) = Returned"
  by (simp add: publish_ledger_entry_eq)

lemma publish_ledger_entry_frame:
  "BALANCE (snd (publish_ledger_entry e r)) = BALANCE r"
  "HBBFT_PERF (snd (publish_ledger_entry e r)) = HBBFT_PERF r"
  "SYSTEM_USAGE (snd (publish_ledger_entry e r)) = SYSTEM_USAGE r"
  by (simp_all add: publish_ledger_entry_eq)

lemma publish_ledger_entry_heartbeat:
  "HEARTBEAT (snd (publish_ledger_entry e r)) =
     (HEARTBEAT r)((le_name e, le_address e) \<mapsto> real_of_int (le_last_heartbeat e))"
  by (simp add: publish_ledger_entry_eq)

lemma publish_ledger_entry_other:
  "a \<noteq> le_address e \<Longrightarrow>
   LEDGER_PENALTY (snd (publish_ledger_entry e r)) (rt, st, n, a) = LEDGER_PENALTY r (rt, st, n, a)"
  by (simp add: publish_ledger_entry_eq)

lemma publish_ledger_entry_ratio:
  "LEDGER_PENALTY (snd (publish_ledger_entry e r))
     (''ledger_penalties'', ''perf_tenure_ratio'', le_name e, le_address e) =
   (if le_tenure_penalty e > 0
    then Some ((le_performance_penalty e + le_dkg_penalty e) / le_tenure_penalty e)
    else LEDGER_PENALTY r (''ledger_penalties'', ''perf_tenure_ratio'', le_name e, le_address e))"
  by (simp add: publish_ledger_entry_eq)

lemma publish_ledger_entry_entities:
  "ledger_entity ` dom (LEDGER_PENALTY (snd (publish_ledger_entry e r))) =
   insert (le_name e, le_address e) (ledger_entity ` dom (LEDGER_PENALTY r))"
  by (simp add: publish_ledger_entry_eq)

lemma publish_ledger_items_returns: "fst (publish_ledger_items d r) = Returned"
proof (induction d arbitrary: r)
  case Nil
  show ?case by simp
next
  case (Cons x d)
  obtain k e where x: "x = (k, e)" by (cases x)
  show ?case
    using Cons.IH [of "snd (publish_ledger_entry e r)"]
    by (simp add: x publish_ledger_entry_eq)
qed

lemma publish_ledger_items_Cons:
  "publish_ledger_items ((k, e) # d) r = publish_ledger_items d (snd (publish_ledger_entry e r))"
  by (simp add: publish_ledger_entry_eq)

declare publish_ledger_items.simps(2) [simp del]

lemma publish_ledger_items_frame:
  "BALANCE (snd (publish_ledger_items d r)) = BALANCE r"
  "HBBFT_PERF (snd (publish_ledger_items d r)) = HBBFT_PERF r"
  "SYSTEM_USAGE (snd (publish_ledger_items d r)) = SYSTEM_USAGE r"
proof (induction d arbitrary: r)
  case Nil
  {
    case 1 show ?case by simp
  next
    case 2 show ?case by simp
  next
    case 3 show ?case by simp
  }
next
  case (Cons x d)
  obtain k e where x: "x = (k, e)" by (cases x)
  {
    case 1 show ?case
      by (simp only: x publish_ledger_items_Cons Cons.IH(1) publish_ledger_entry_frame)
  next
    case 2 show ?case
      by (simp only: x publish_ledger_items_Cons Cons.IH(2) publish_ledger_entry_frame)
  next
    case 3 show ?case
      by (simp only: x publish_ledger_items_Cons Cons.IH(3) publish_ledger_entry_frame)
  }
qed

lemma publish_ledger_items_entities:
  "ledger_entity ` dom (LEDGER_PENALTY (snd (publish_ledger_items d r))) =
   ledger_entity ` dom (LEDGER_PENALTY r) \<union>
   (\<lambda>(k, e). (le_name e, le_address e)) ` set d"
proof (induction d arbitrary: r)
  case Nil
  show ?case by simp
next
  case (Cons x d)
  obtain k e where x: "x = (k, e)" by (cases x)
  have "ledger_entity ` dom (LEDGER_PENALTY (snd (publish_ledger_items (x # d) r))) =
        insert (le_name e, le_address e) (ledger_entity ` dom (LEDGER_PENALTY r)) \<union>
        (\<lambda>(k, e). (le_name e, le_address e)) ` set d"
    by (simp only: x publish_ledger_items_Cons Cons.IH publish_ledger_entry_entities)
  then show ?case by (simp add: x)
qed

lemma publish_ledger_items_other:
  "a \<notin> le_address ` snd ` set d \<Longrightarrow>
   LEDGER_PENALTY (snd (publish_ledger_items d r)) (rt, st, n, a) = LEDGER_PENALTY r (rt, st, n, a)"
proof (induction d arbitrary: r)
  case Nil
  show ?case by simp
next
  case (Cons x d)
  obtain k e where x: "x = (k, e)" by (cases x)
  from Cons.prems have ne: "a \<noteq> le_address e" and rest: "a \<notin> le_address ` snd ` set d"
    by (auto simp: x)
  show ?case
    by (simp only: x publish_ledger_items_Cons Cons.IH [OF rest] publish_ledger_entry_other [OF ne])
qed

lemma publish_ledger_items_heartbeat_dom:
  "dom (HEARTBEAT (snd (publish_ledger_items d r))) =
   dom (HEARTBEAT r) \<union> (\<lambda>(k, e). (le_name e, le_address e)) ` set d"
proof (induction d arbitrary: r)
  case Nil
  show ?case by simp
next
  case (Cons x d)
  obtain k e where x: "x = (k, e)" by (cases x)
  have "dom (HEARTBEAT (snd (publish_ledger_items (x # d) r))) =
        dom ((HEARTBEAT r)((le_name e, le_address e) \<mapsto> real_of_int (le_last_heartbeat e))) \<union>
        (\<lambda>(k, e). (le_name e, le_address e)) ` set d"
    by (simp only: x publish_ledger_items_Cons Cons.IH publish_ledger_entry_heartbeat)
  then show ?case by (simp add: x)
qed

lemma publish_ledger_items_heartbeat_other:
  "k \<notin> (\<lambda>(k, e). (le_name e, le_address e)) ` set d \<Longrightarrow>
   HEARTBEAT (snd (publish_ledger_items d r)) k = HEARTBEAT r k"
proof (induction d arbitrary: r)
  case Nil
  show ?case by simp
next
  case (Cons x d)
  obtain k0 e where x: "x = (k0, e)" by (cases x)
  from Cons.prems have ne: "k \<noteq> (le_name e, le_address e)"
    and rest: "k \<notin> (\<lambda>(k, e). (le_name e, le_address e)) ` set d"
    by (auto simp: x)
  have "HEARTBEAT (snd (publish_ledger_items (x # d) r)) k =
        ((HEARTBEAT r)((le_name e, le_address e) \<mapsto> real_of_int (le_last_heartbeat e))) k"
    by (simp only: x publish_ledger_items_Cons Cons.IH [OF rest] publish_ledger_entry_heartbeat)
  with ne show ?case by simp
qed

lemma publish_ledger_items_ratio:
  "distinct (map (\<lambda>x. le_address (snd x)) d) \<Longrightarrow> (k, e) \<in> set d \<Longrightarrow>
   LEDGER_PENALTY (snd (publish_ledger_items d r))
     (''ledger_penalties'', ''perf_tenure_ratio'', le_name e, le_address e) =
   (if le_tenure_penalty e > 0
    then Some ((le_performance_penalty e + le_dkg_penalty e) / le_tenure_penalty e)
    else LEDGER_PENALTY r (''ledger_penalties'', ''perf_tenure_ratio'', le_name e, le_address e))"
proof (induction d arbitrary: r)
  case Nil
  then show ?case by simp
next
  case (Cons x d)
  obtain k0 e0 where x: "x = (k0, e0)" by (cases x)
  let ?r1 = "snd (publish_ledger_entry e0 r)"
  let ?key = "(''ledger_penalties'', ''perf_tenure_ratio'', le_name e, le_address e)"
  have step: "publish_ledger_items (x # d) r = publish_ledger_items d ?r1"
    by (simp only: x publish_ledger_items_Cons)
  from Cons.prems have dist: "distinct (map (\<lambda>x. le_address (snd x)) d)"
    and fresh: "le_address e0 \<notin> le_address ` snd ` set d"
    by (simp_all add: x image_image)
  show ?case
  proof (cases "(k, e) \<in> set d")
    case True
    then have "le_address e \<in> le_address ` snd ` set d" by force
    with fresh have ne: "le_address e \<noteq> le_address e0" by metis
    have "LEDGER_PENALTY ?r1 ?key = LEDGER_PENALTY r ?key"
      using ne by (rule publish_ledger_entry_other)
    with Cons.IH [OF dist True, of ?r1] show ?thesis
      by (simp only: step)
  next
    case False
    with Cons.prems(2) have e: "e = e0" by (simp add: x)
    have "LEDGER_PENALTY (snd (publish_ledger_items d ?r1)) ?key = LEDGER_PENALTY ?r1 ?key"
      unfolding e by (rule publish_ledger_items_other [OF fresh])
    then show ?thesis
      by (simp only: step e publish_ledger_entry_ratio)
  qed
qed

subsection \<open>Publishing the HBBFT performance and the simple gauges\<close>

lemma publish_member_eq:
  "publish_member cfg addr bba_tot seen_tot member r =
     (if cm_address member = addr \<or> ALL_HBBFT cfg then
        r\<lparr>HBBFT_PERF := (HBBFT_PERF r)
            ((''hbbft_perf'', ''Penalty'', cm_name member) \<mapsto> cm_penalty member,
             (''hbbft_perf'', ''BBA_Total'', cm_name member) \<mapsto> real_of_int bba_tot,
             (''hbbft_perf'', ''BBA_Votes'', cm_name member) \<mapsto>
                real_of_int (cm_bba_completions member),
             (''hbbft_perf'', ''Seen_Total'', cm_name member) \<mapsto> real_of_int seen_tot,
             (''hbbft_perf'', ''Seen_Votes'', cm_name member) \<mapsto>
                real_of_int (cm_seen_votes member),
             (''hbbft_perf'', ''BBA_Last'', cm_name member) \<mapsto> real_of_int (cm_last_bba member),
             (''hbbft_perf'', ''Seen_Last'', cm_name member) \<mapsto>
                real_of_int (cm_last_seen member),
             (''hbbft_perf'', ''Tenure'', cm_name member) \<mapsto> real_of_int (cm_tenure member))\<rparr>
      else r)"
  by (simp add: publish_member_def gauge_set_eq Let_def)

lemma publish_member_frame:
  "BALANCE (publish_member cfg addr b s member r) = BALANCE r"
  "HEARTBEAT (publish_member cfg addr b s member r) = HEARTBEAT r"
  "LEDGER_PENALTY (publish_member cfg addr b s member r) = LEDGER_PENALTY r"
  "SYSTEM_USAGE (publish_member cfg addr b s member r) = SYSTEM_USAGE r"
  by (simp_all add: publish_member_eq)

lemma publish_member_entities:
  "hbbft_entity ` dom (HBBFT_PERF (publish_member cfg addr b s member r)) =
   hbbft_entity ` dom (HBBFT_PERF r) \<union>
   (if cm_address member = addr \<or> ALL_HBBFT cfg then {cm_name member} else {})"
  by (simp add: publish_member_eq)

lemma fold_publish_member_frame:
  "BALANCE (fold (publish_member cfg addr b s) ms r) = BALANCE r"
  "HEARTBEAT (fold (publish_member cfg addr b s) ms r) = HEARTBEAT r"
  "LEDGER_PENALTY (fold (publish_member cfg addr b s) ms r) = LEDGER_PENALTY r"
  "SYSTEM_USAGE (fold (publish_member cfg addr b s) ms r) = SYSTEM_USAGE r"
  by (induction ms arbitrary: r; simp add: publish_member_frame)+

lemma fold_publish_member_entities:
  "hbbft_entity ` dom (HBBFT_PERF (fold (publish_member cfg addr b s) ms r)) =
   hbbft_entity ` dom (HBBFT_PERF r) \<union>
   cm_name ` {member \<in> set ms. cm_address member = addr \<or> ALL_HBBFT cfg}"
proof (induction ms arbitrary: r)
  case Nil
  show ?case by simp
next
  case (Cons x ms)
  have "hbbft_entity ` dom (HBBFT_PERF (fold (publish_member cfg addr b s) (x # ms) r)) =
        (hbbft_entity ` dom (HBBFT_PERF r) \<union>
         (if cm_address x = addr \<or> ALL_HBBFT cfg then {cm_name x} else {})) \<union>
        cm_name ` {member \<in> set ms. cm_address member = addr \<or> ALL_HBBFT cfg}"
    by (simp only: fold_simps Cons.IH publish_member_entities)
  then show ?case by auto
qed

lemma publish_hbbft_frame:
  "BALANCE (publish_hbbft cfg addr hp r) = BALANCE r"
  "HEARTBEAT (publish_hbbft cfg addr hp r) = HEARTBEAT r"
  "LEDGER_PENALTY (publish_hbbft cfg addr hp r) = LEDGER_PENALTY r"
  "SYSTEM_USAGE (publish_hbbft cfg addr hp r) = SYSTEM_USAGE r"
  by (simp_all add: publish_hbbft_def fold_publish_member_frame split: option.splits)

lemma publish_hbbft_None: "HBBFT_PERF (publish_hbbft cfg addr None r) = HBBFT_PERF r"
  by (simp add: publish_hbbft_def)

lemma publish_hbbft_entities:
  "hbbft_entity ` dom (HBBFT_PERF (publish_hbbft cfg addr (Some p) r)) =
   cm_name ` {member \<in> set (hp_consensus_members p). cm_address member = addr \<or> ALL_HBBFT cfg}"
  by (simp add: publish_hbbft_def fold_publish_member_entities)

lemma publish_simple_frame:
  "BALANCE (publish_height n hi r) = BALANCE r"
  "HEARTBEAT (publish_height n hi r) = HEARTBEAT r"
  "LEDGER_PENALTY (publish_height n hi r) = LEDGER_PENALTY r"
  "HBBFT_PERF (publish_height n hi r) = HBBFT_PERF r"
  "SYSTEM_USAGE (publish_height n hi r) = SYSTEM_USAGE r"
  "BALANCE (publish_in_consensus n ic r) = BALANCE r"
  "HEARTBEAT (publish_in_consensus n ic r) = HEARTBEAT r"
  "LEDGER_PENALTY (publish_in_consensus n ic r) = LEDGER_PENALTY r"
  "HBBFT_PERF (publish_in_consensus n ic r) = HBBFT_PERF r"
  "SYSTEM_USAGE (publish_in_consensus n ic r) = SYSTEM_USAGE r"
  "HEARTBEAT (publish_balance n bal r) = HEARTBEAT r"
  "LEDGER_PENALTY (publish_balance n bal r) = LEDGER_PENALTY r"
  "HBBFT_PERF (publish_balance n bal r) = HBBFT_PERF r"
  "SYSTEM_USAGE (publish_balance n bal r) = SYSTEM_USAGE r"
  "BALANCE (publish_block_age n ba r) = BALANCE r"
  "HEARTBEAT (publish_block_age n ba r) = HEARTBEAT r"
  "LEDGER_PENALTY (publish_block_age n ba r) = LEDGER_PENALTY r"
  "HBBFT_PERF (publish_block_age n ba r) = HBBFT_PERF r"
  "SYSTEM_USAGE (publish_block_age n ba r) = SYSTEM_USAGE r"
  "BALANCE (publish_version n ver r) = BALANCE r"
  "HEARTBEAT (publish_version n ver r) = HEARTBEAT r"
  "LEDGER_PENALTY (publish_version n ver r) = LEDGER_PENALTY r"
  "HBBFT_PERF (publish_version n ver r) = HBBFT_PERF r"
  "SYSTEM_USAGE (publish_version n ver r) = SYSTEM_USAGE r"
  by (simp_all add: publish_height_def publish_in_consensus_def publish_balance_def
        publish_block_age_def publish_version_def Let_def split: option.splits)


lemma publish_peer_book_frame:
  "BALANCE (snd (publish_peer_book n pb r)) = BALANCE r"
  "HEARTBEAT (snd (publish_peer_book n pb r)) = HEARTBEAT r"
  "LEDGER_PENALTY (snd (publish_peer_book n pb r)) = LEDGER_PENALTY r"
  "HBBFT_PERF (snd (publish_peer_book n pb r)) = HBBFT_PERF r"
  "SYSTEM_USAGE (snd (publish_peer_book n pb r)) = SYSTEM_USAGE r"
  by (simp_all add: publish_peer_book_def split: option.splits list.splits)

lemma publish_peer_book_outcome:
  "fst (publish_peer_book n pb r) = (if pb = Some [] then Raised IndexError else Returned)"
  by (simp add: publish_peer_book_def split: option.splits list.splits)

lemma publish_penalty_ledger_outcome:
  "fst (publish_penalty_ledger pl r) =
     (case pl of LList l \<Rightarrow> Raised AttributeError | _ \<Rightarrow> Returned)"
  by (simp add: publish_penalty_ledger_def publish_ledger_items_returns split: ledger_var.splits)

lemma publish_penalty_ledger_frame:
  "BALANCE (snd (publish_penalty_ledger pl r)) = BALANCE r"
  "HBBFT_PERF (snd (publish_penalty_ledger pl r)) = HBBFT_PERF r"
  "SYSTEM_USAGE (snd (publish_penalty_ledger pl r)) = SYSTEM_USAGE r"
  by (simp_all add: publish_penalty_ledger_def publish_ledger_items_frame split: ledger_var.splits)

lemma publish_penalty_ledger_heartbeat_dom:
  "dom (HEARTBEAT r) \<subseteq> dom (HEARTBEAT (snd (publish_penalty_ledger pl r)))"
  by (auto simp add: publish_penalty_ledger_def publish_ledger_items_heartbeat_dom
           split: ledger_var.splits)

subsection \<open>One cycle, step by step\<close>

lemma soft_fetch_fst [simp]: "fst (soft_fetch c resp msg) = resp"
  by (simp add: soft_fetch_def split: option.splits)

lemma soft_fetch_snd:
  "snd (soft_fetch c resp msg) = (if resp = None then [Call c, LogError msg] else [Call c])"
  by (simp add: soft_fetch_def split: option.splits)

lemma fetch_all_values:
  "height_info (fst (fetch_all cfg m addr)) = rpc_info_height m"
  "in_consensus (fst (fetch_all cfg m addr)) = rpc_in_consensus m"
  "penalty_ledger (fst (fetch_all cfg m addr)) = fst (fetch_penalty_ledger cfg m addr)"
  "owner (fst (fetch_all cfg m addr)) = resolve_owner (fst (fetch_penalty_ledger cfg m addr)) addr"
  "balance (fst (fetch_all cfg m addr)) =
     fst (fetch_balance m (resolve_owner (fst (fetch_penalty_ledger cfg m addr)) addr))"
  "version (fst (fetch_all cfg m addr)) = rpc_version m"
  "block_age (fst (fetch_all cfg m addr)) = rpc_block_age m"
  "hbbft_perf (fst (fetch_all cfg m addr)) = rpc_hbbft_perf m"
  "peer_book_info (fst (fetch_all cfg m addr)) = rpc_peer_book_self m"
  by (simp_all add: fetch_all_def Let_def split_beta)

lemma fetch_all_events:
  "snd (fetch_all cfg m addr) =
     snd (soft_fetch InfoHeight (rpc_info_height m) ''chain height fetch failure'') @
     snd (soft_fetch InConsensus (rpc_in_consensus m) ''in consensus fetch failure'') @
     snd (fetch_penalty_ledger cfg m addr) @
     snd (fetch_balance m (resolve_owner (fst (fetch_penalty_ledger cfg m addr)) addr)) @
     snd (soft_fetch Version (rpc_version m) ''version fetch error'') @
     snd (soft_fetch BlockAge (rpc_block_age m) ''block age fetch failure'') @
     snd (soft_fetch HbbftPerf (rpc_hbbft_perf m) ''hbbft perf fetch failure'') @
     snd (soft_fetch PeerBookSelf (rpc_peer_book_self m) ''peer book self fetch failure'')"
  by (simp add: fetch_all_def Let_def split_beta)

lemma publish_outcome:
  "fst (publish cfg addr name f r) =
     (case penalty_ledger f of
        LList l \<Rightarrow> Raised AttributeError
      | _ \<Rightarrow> if peer_book_info f = Some [] then Raised IndexError else Returned)"
proof -
  let ?r5 = "publish_version name (version f) (publish_block_age name (block_age f)
             (publish_balance name (balance f) (publish_in_consensus name (in_consensus f)
             (publish_height name (height_info f) r))))"
  have "fst (publish_penalty_ledger (penalty_ledger f) ?r5) =
        (case penalty_ledger f of LList l \<Rightarrow> Raised AttributeError | _ \<Rightarrow> Returned)"
    by (rule publish_penalty_ledger_outcome)
  then show ?thesis
    by (cases "publish_penalty_ledger (penalty_ledger f) ?r5")
       (auto simp add: publish_def Let_def publish_peer_book_outcome split: ledger_var.splits)
qed

lemma publish_unfold:
  "snd (publish cfg addr name f r) =
     (let r5 = publish_version name (version f) (publish_block_age name (block_age f)
                 (publish_balance name (balance f) (publish_in_consensus name (in_consensus f)
                 (publish_height name (height_info f) r))));
          r6 = snd (publish_penalty_ledger (penalty_ledger f) r5)
      in case penalty_ledger f of
           LList l \<Rightarrow> r6
         | _ \<Rightarrow> snd (publish_peer_book name (peer_book_info f)
                       (publish_hbbft cfg addr (hbbft_perf f) r6)))"
proof -
  let ?r5 = "publish_version name (version f) (publish_block_age name (block_age f)
             (publish_balance name (balance f) (publish_in_consensus name (in_consensus f)
             (publish_height name (height_info f) r))))"
  have "fst (publish_penalty_ledger (penalty_ledger f) ?r5) =
        (case penalty_ledger f of LList l \<Rightarrow> Raised AttributeError | _ \<Rightarrow> Returned)"
    by (rule publish_penalty_ledger_outcome)
  then show ?thesis
    by (cases "publish_penalty_ledger (penalty_ledger f) ?r5")
       (auto simp add: publish_def Let_def split: ledger_var.splits)
qed

lemma publish_system_usage: "SYSTEM_USAGE (snd (publish cfg addr name f r)) = SYSTEM_USAGE r"
  by (simp add: publish_unfold Let_def publish_peer_book_frame publish_hbbft_frame
        publish_penalty_ledger_frame publish_simple_frame split: ledger_var.splits)


lemma publish_heartbeat_dom:
  "dom (HEARTBEAT r) \<subseteq> dom (HEARTBEAT (snd (publish cfg addr name f r)))"
proof -
  let ?r5 = "publish_version name (version f) (publish_block_age name (block_age f)
             (publish_balance name (balance f) (publish_in_consensus name (in_consensus f)
             (publish_height name (height_info f) r))))"
  have a: "HEARTBEAT ?r5 = HEARTBEAT r"
    by (simp add: publish_simple_frame)
  have b: "dom (HEARTBEAT ?r5) \<subseteq> dom (HEARTBEAT (snd (publish_penalty_ledger (penalty_ledger f) ?r5)))"
    by (rule publish_penalty_ledger_heartbeat_dom)
  have c: "HEARTBEAT (snd (publish cfg addr name f r)) =
           HEARTBEAT (snd (publish_penalty_ledger (penalty_ledger f) ?r5))"
    by (simp add: publish_unfold Let_def publish_peer_book_frame publish_hbbft_frame
          split: ledger_var.splits)
  from a b c show ?thesis by simp
qed

lemma publish_ledger_None:
  "penalty_ledger f = LNone \<Longrightarrow>
   LEDGER_PENALTY (snd (publish cfg addr name f r)) = LEDGER_PENALTY r"
  by (simp add: publish_unfold Let_def publish_peer_book_frame publish_hbbft_frame
        publish_simple_frame publish_penalty_ledger_def)

lemma publish_ledger_List:
  "penalty_ledger f = LList l \<Longrightarrow>
   LEDGER_PENALTY (snd (publish cfg addr name f r)) = Map.empty \<and>
   HBBFT_PERF (snd (publish cfg addr name f r)) = HBBFT_PERF r"
  by (simp add: publish_unfold Let_def publish_simple_frame publish_penalty_ledger_def)

lemma publish_ledger_Dict:
  "penalty_ledger f = LDict d \<Longrightarrow>
   \<exists>R. LEDGER_PENALTY (snd (publish cfg addr name f r)) =
       LEDGER_PENALTY (snd (publish_ledger_items d (R\<lparr>LEDGER_PENALTY := Map.empty\<rparr>)))"
  by (auto simp add: publish_unfold Let_def publish_peer_book_frame publish_hbbft_frame
        publish_penalty_ledger_def)

lemma publish_hbbft_field_None:
  "hbbft_perf f = None \<Longrightarrow> HBBFT_PERF (snd (publish cfg addr name f r)) = HBBFT_PERF r"
  by (simp add: publish_unfold Let_def publish_peer_book_frame publish_hbbft_None
        publish_penalty_ledger_frame publish_simple_frame split: ledger_var.splits)

lemma publish_hbbft_field_Some:
  "hbbft_perf f = Some p \<Longrightarrow> \<forall>l. penalty_ledger f \<noteq> LList l \<Longrightarrow>
   hbbft_entity ` dom (HBBFT_PERF (snd (publish cfg addr name f r))) =
   cm_name ` {member \<in> set (hp_consensus_members p). cm_address member = addr \<or> ALL_HBBFT cfg}"
  by (simp add: publish_unfold Let_def publish_peer_book_frame publish_hbbft_entities
      split: ledger_var.splits)

lemma stats_past_gate:
  "rpc_addr m = Some addr \<Longrightarrow> rpc_name m = Some name \<Longrightarrow>
   stats cfg h m elapsed r =
     (case fst (collect_system_usage cfg h r) of
        Raised x \<Rightarrow>
          (Raised x, [Call Addr, Call Name], observe elapsed (snd (collect_system_usage cfg h r)))
      | Returned \<Rightarrow>
          (fst (publish cfg addr name (fst (fetch_all cfg m addr))
                 (snd (collect_system_usage cfg h r))),
           [Call Addr, Call Name] @ snd (fetch_all cfg m addr),
           observe elapsed
             (snd (publish cfg addr name (fst (fetch_all cfg m addr))
                     (snd (collect_system_usage cfg h r))))))"
  by (simp add: stats_def stats_body_def split: prod.splits outcome.splits)

lemma observe_frame:
  "BALANCE (observe d r) = BALANCE r"
  "HEARTBEAT (observe d r) = HEARTBEAT r"
  "LEDGER_PENALTY (observe d r) = LEDGER_PENALTY r"
  "HBBFT_PERF (observe d r) = HBBFT_PERF r"
  "SYSTEM_USAGE (observe d r) = SYSTEM_USAGE r"
  by (simp_all add: observe_def)

subsection \<open>The dictionary of staked validators\<close>

lemma set_update_subset: "set (AList.update k v al) \<subseteq> insert (k, v) (set al)"
  by (induction al) (auto simp: AList.update.simps)

lemma fold_update_inv:
  "distinct (map fst d) \<Longrightarrow> \<forall>(k, e) \<in> set d. k = le_address e \<and> P e \<Longrightarrow> \<forall>v \<in> set vs. P v \<Longrightarrow>
   distinct (map fst (foldl (\<lambda>d v. AList.update (le_address v) v d) d vs)) \<and>
   (\<forall>(k, e) \<in> set (foldl (\<lambda>d v. AList.update (le_address v) v d) d vs). k = le_address e \<and> P e)"
proof (induction vs arbitrary: d)
  case Nil
  then show ?case by simp
next
  case (Cons v vs)
  let ?d = "AList.update (le_address v) v d"
  have 1: "distinct (map fst ?d)"
    using Cons.prems(1) by (rule distinct_update)
  have 2: "\<forall>(k, e) \<in> set ?d. k = le_address e \<and> P e"
    using Cons.prems(2,3) set_update_subset [of "le_address v" v d] by auto
  have 3: "\<forall>v \<in> set vs. P v" using Cons.prems(3) by simp
  from Cons.IH [OF 1 2 3] show ?case by simp
qed

lemma fold_update_keys:
  "fst ` set (foldl (\<lambda>d v. AList.update (le_address v) v d) d vs) =
   fst ` set d \<union> le_address ` set vs"
  by (induction vs arbitrary: d) (auto simp: dom_update)

lemma staked_dict_inv:
  "distinct (map fst (staked_dict vs)) \<and>
   (\<forall>(k, e) \<in> set (staked_dict vs). k = le_address e \<and> e \<in> set vs \<and> le_status e = ''staked'')"
proof -
  have "distinct (map fst (staked_dict vs)) \<and>
        (\<forall>(k, e) \<in> set (staked_dict vs).
           k = le_address e \<and> (e \<in> set vs \<and> le_status e = ''staked''))"
    unfolding staked_dict_def
    by (rule fold_update_inv) simp_all
  then show ?thesis .
qed

lemma staked_dict_keys:
  "fst ` set (staked_dict vs) = le_address ` {v \<in> set vs. le_status v = ''staked''}"
  by (simp add: staked_dict_def fold_update_keys)

lemma staked_dict_member:
  assumes "x \<in> set (staked_dict vs)"
  shows "fst x = le_address (snd x)" and "snd x \<in> set vs" and "le_status (snd x) = ''staked''"
proof -
  obtain k e where x: "x = (k, e)" by (cases x)
  from staked_dict_inv [of vs] assms
  have "k = le_address e \<and> e \<in> set vs \<and> le_status e = ''staked''"
    unfolding x by blast
  then show "fst x = le_address (snd x)" and "snd x \<in> set vs"
    and "le_status (snd x) = ''staked''"
    unfolding x by simp_all
qed

lemma staked_dict_distinct:
  "distinct (map (\<lambda>x. le_address (snd x)) (staked_dict vs))"
proof -
  have "map (\<lambda>x. le_address (snd x)) (staked_dict vs) = map fst (staked_dict vs)"
    by (rule map_cong [OF refl]) (simp only: staked_dict_member(1))
  moreover have "distinct (map fst (staked_dict vs))"
    using staked_dict_inv [of vs] by (rule conjunct1)
  ultimately show ?thesis by (simp only:)
qed

lemma staked_dict_addresses:
  "le_address ` snd ` set (staked_dict vs) = le_address ` {v \<in> set vs. le_status v = ''staked''}"
proof -
  have "(\<lambda>x. le_address (snd x)) ` set (staked_dict vs) = fst ` set (staked_dict vs)"
    by (rule image_cong [OF refl]) (simp only: staked_dict_member(1))
  then show ?thesis by (simp only: staked_dict_keys image_image)
qed

lemma staked_dict_values:
  assumes "distinct (map le_address (filter (\<lambda>v. le_status v = ''staked'') vs))"
  shows "snd ` set (staked_dict vs) = {v \<in> set vs. le_status v = ''staked''}"
proof
  show "snd ` set (staked_dict vs) \<subseteq> {v \<in> set vs. le_status v = ''staked''}"
    using staked_dict_member(2,3) by blast
next
  show "{v \<in> set vs. le_status v = ''staked''} \<subseteq> snd ` set (staked_dict vs)"
  proof
    fix v assume v: "v \<in> {v \<in> set vs. le_status v = ''staked''}"
    then have "le_address v \<in> fst ` set (staked_dict vs)"
      by (simp only: staked_dict_keys) (rule imageI)
    then obtain x where x: "x \<in> set (staked_dict vs)" "le_address v = fst x"
      by (rule imageE) 
    have e': "le_address v = le_address (snd x)" "snd x \<in> set vs" "le_status (snd x) = ''staked''"
      using staked_dict_member [OF x(1)] x(2) by simp_all
    from assms have inj: "inj_on le_address (set (filter (\<lambda>v. le_status v = ''staked'') vs))"
      by (simp only: distinct_map)
    have "v \<in> set (filter (\<lambda>v. le_status v = ''staked'') vs)"
      and "snd x \<in> set (filter (\<lambda>v. le_status v = ''staked'') vs)"
      using v e'(2,3) by simp_all
    with inj e'(1) have "v = snd x" by (rule inj_onD)
    with x(1) show "v \<in> snd ` set (staked_dict vs)" by (simp only: imageI)
  qed
qed

subsection \<open>The outcome of one cycle\<close>

lemma fetch_penalty_ledger_distinct:
  "fst (fetch_penalty_ledger cfg m addr) = LDict d \<Longrightarrow> distinct (map (\<lambda>x. le_address (snd x)) d)"
  by (auto simp add: fetch_penalty_ledger_def staked_dict_distinct split: if_splits option.splits)



lemma stats_gate:
  "rpc_addr m = None \<or> rpc_name m = None \<Longrightarrow>
   stats cfg h m elapsed r =
     (Returned,
      (if rpc_addr m = None then [Call Addr, LogError ''can't get validator's address'']
       else [Call Addr, Call Name, LogError ''can't get validator's name'']),
      observe elapsed r)"
  by (auto simp add: stats_def stats_body_def split: option.splits)

lemma stats_outcome:
  "fst (stats cfg h m elapsed r) =
     (case rpc_addr m of
        None \<Rightarrow> Returned
      | Some addr \<Rightarrow>
          (case rpc_name m of
             None \<Rightarrow> Returned
           | Some name \<Rightarrow>
               if COLLECT_SYSTEM_USAGE cfg \<and> disk_total h = 0 then Raised ZeroDivisionError
               else (case fst (fetch_penalty_ledger cfg m addr) of
                       LList l \<Rightarrow> Raised AttributeError
                     | _ \<Rightarrow> if rpc_peer_book_self m = Some [] then Raised IndexError
                            else Returned)))"
proof (cases "rpc_addr m")
  case None
  then show ?thesis by (simp add: stats_gate)
next
  case (Some addr)
  note a = this
  show ?thesis
  proof (cases "rpc_name m")
    case None
    with a show ?thesis by (simp add: stats_gate)
  next
    case (Some name)
    show ?thesis
      by (simp add: stats_past_gate [OF a Some] a Some collect_system_usage_outcome
            publish_outcome fetch_all_values)
  qed
qed


subsection \<open>The identity gate and the host usage\<close>

text \<open>
  C3, as amended. When the address fetch or the name fetch fails, \<open>stats\<close> returns
  at once: the only calls made are the address call and, when the address was
  obtained, the name call; one error is logged; and the registry is the one before
  the cycle but for the scrape-time summary, which has one observation more.
\<close>

theorem identity_gate_keeps_all_but_scrape_time:
  assumes "rpc_addr m = None \<or> rpc_name m = None"
  shows "stats cfg h m elapsed r =
     (Returned,
      (if rpc_addr m = None then [Call Addr, LogError ''can't get validator's address'']
       else [Call Addr, Call Name, LogError ''can't get validator's name'']),
      r\<lparr>SCRAPE_TIME_count := SCRAPE_TIME_count r + 1,
        SCRAPE_TIME_sum := SCRAPE_TIME_sum r + elapsed\<rparr>)"
  using assms by (simp add: stats_gate observe_def)

theorem identity_gate_keeps_all_but_scrape_time_witness:
  "(rpc_addr ex_miner_down = None \<or> rpc_name ex_miner_down = None) \<and>
   stats ex_config ex_host ex_miner_down 2 empty_registry =
     (Returned, [Call Addr, LogError ''can't get validator's address''],
      empty_registry\<lparr>SCRAPE_TIME_count := 1, SCRAPE_TIME_sum := 2\<rparr>)"
  using identity_gate_keeps_all_but_scrape_time
          [of ex_miner_down ex_config ex_host 2 empty_registry]
  by (simp add: ex_miner_down_def empty_registry_def)

theorem identity_gate_changes_scrape_time:
  "rpc_addr ex_miner_down = None \<and>
   SCRAPE_TIME_count (snd (snd (stats ex_config ex_host ex_miner_down 2 empty_registry))) \<noteq>
   SCRAPE_TIME_count empty_registry"
  by (simp add: stats_gate observe_def ex_miner_down_def empty_registry_def)

text \<open>
  C7, as amended. With the host-usage flag on, a cycle that has obtained the address
  and the name publishes the six host-usage samples under the host name, whatever the
  later fetches answer and however the cycle ends, provided the sampling itself does
  not fail (the total size of the disk is not zero). No other label of the family
  is touched.
\<close>

theorem host_usage_published_past_gate:
  assumes "COLLECT_SYSTEM_USAGE cfg" and "rpc_addr m = Some addr" and "rpc_name m = Some name"
    and "disk_total h \<noteq> 0"
  shows "SYSTEM_USAGE (snd (snd (stats cfg h m elapsed r))) =
     (SYSTEM_USAGE r)
       ((''CPU'', hostname cfg) \<mapsto> cpu_percent h,
        (''Memory'', hostname cfg) \<mapsto> virtual_memory_percent h,
        (''CPU-Steal'', hostname cfg) \<mapsto> cpu_steal h,
        (''Disk Used'', hostname cfg) \<mapsto> real_of_int (disk_used h) / real_of_int (disk_total h),
        (''Disk Free'', hostname cfg) \<mapsto> real_of_int (disk_free h) / real_of_int (disk_total h),
        (''Process-Count'', hostname cfg) \<mapsto> real (length (process_iter h)))"
  using assms
  by (simp add: stats_past_gate collect_system_usage_on observe_frame publish_system_usage)

theorem host_usage_published_past_gate_witness:
  "COLLECT_SYSTEM_USAGE (ex_config\<lparr>COLLECT_SYSTEM_USAGE := True\<rparr>) \<and>
   rpc_addr (ex_miner_down\<lparr>rpc_addr := Some ''A1'', rpc_name := Some ''N1''\<rparr>) = Some ''A1'' \<and>
   rpc_name (ex_miner_down\<lparr>rpc_addr := Some ''A1'', rpc_name := Some ''N1''\<rparr>) = Some ''N1'' \<and>
   disk_total ex_host \<noteq> 0 \<and>
   SYSTEM_USAGE (snd (snd (stats (ex_config\<lparr>COLLECT_SYSTEM_USAGE := True\<rparr>) ex_host
       (ex_miner_down\<lparr>rpc_addr := Some ''A1'', rpc_name := Some ''N1''\<rparr>) 2 empty_registry))) =
     [(''CPU'', ''host1'') \<mapsto> 12, (''Memory'', ''host1'') \<mapsto> 40, (''CPU-Steal'', ''host1'') \<mapsto> 0,
      (''Disk Used'', ''host1'') \<mapsto> 3 / 10, (''Disk Free'', ''host1'') \<mapsto> 7 / 10,
      (''Process-Count'', ''host1'') \<mapsto> 3]"
  using host_usage_published_past_gate
          [of "ex_config\<lparr>COLLECT_SYSTEM_USAGE := True\<rparr>"
              "ex_miner_down\<lparr>rpc_addr := Some ''A1'', rpc_name := Some ''N1''\<rparr>"
              "''A1''" "''N1''" ex_host 2 empty_registry]
  by (simp add: ex_config_def ex_host_def empty_registry_def)

theorem host_usage_skipped_at_gate:
  "COLLECT_SYSTEM_USAGE (ex_config\<lparr>COLLECT_SYSTEM_USAGE := True\<rparr>) \<and>
   SYSTEM_USAGE (snd (snd (stats (ex_config\<lparr>COLLECT_SYSTEM_USAGE := True\<rparr>) ex_host
       ex_miner_down 2 empty_registry))) (''CPU'', hostname (ex_config\<lparr>COLLECT_SYSTEM_USAGE := True\<rparr>))
     = None"
  by (simp add: stats_gate observe_def ex_miner_down_def empty_registry_def)

subsection \<open>The owner balance and the penalty ratio\<close>

lemma stats_reached_publication:
  assumes "rpc_addr m = Some addr" and "rpc_name m = Some name"
    and "COLLECT_SYSTEM_USAGE cfg \<longrightarrow> disk_total h \<noteq> 0"
  shows "stats cfg h m elapsed r =
     (fst (publish cfg addr name (fst (fetch_all cfg m addr))
             (snd (collect_system_usage cfg h r))),
      [Call Addr, Call Name] @ snd (fetch_all cfg m addr),
      observe elapsed
        (snd (publish cfg addr name (fst (fetch_all cfg m addr))
                (snd (collect_system_usage cfg h r)))))"
proof -
  from assms(3) have "fst (collect_system_usage cfg h r) = Returned"
    by (simp add: collect_system_usage_outcome)
  then show ?thesis
    by (simp add: stats_past_gate [OF assms(1,2)])
qed

lemma stats_stopped_at_sampling:
  assumes "rpc_addr m = Some addr" and "rpc_name m = Some name"
    and "COLLECT_SYSTEM_USAGE cfg" and "disk_total h = 0"
  shows "stats cfg h m elapsed r =
     (Raised ZeroDivisionError, [Call Addr, Call Name],
      observe elapsed (snd (collect_system_usage cfg h r)))"
proof -
  from assms(3,4) have "fst (collect_system_usage cfg h r) = Raised ZeroDivisionError"
    by (simp add: collect_system_usage_outcome)
  then show ?thesis
    by (simp add: stats_past_gate [OF assms(1,2)])
qed





text \<open>
  C6. In a cycle that reaches the publication with a ledger dictionary, the sample
  \<open>perf_tenure_ratio\<close> of an entry of the dictionary is in the family after the cycle
  exactly when the entry's tenure penalty is positive, and it is then the sum of the
  performance and DKG penalties divided by the tenure penalty. Publishing the ledger
  returns, and the cycle does not end in a division error. The quotient is the one
  of the reals.
\<close>

theorem perf_tenure_ratio_iff_positive_tenure:
  assumes "rpc_addr m = Some addr" and "rpc_name m = Some name"
    and "COLLECT_SYSTEM_USAGE cfg \<longrightarrow> disk_total h \<noteq> 0"
    and "fst (fetch_penalty_ledger cfg m addr) = LDict d" and "(k, e) \<in> set d"
    and "stats cfg h m elapsed r = (out, evs, r')"
  shows "(LEDGER_PENALTY r' (''ledger_penalties'', ''perf_tenure_ratio'', le_name e, le_address e)
            \<noteq> None \<longleftrightarrow> 0 < le_tenure_penalty e) \<and>
         (0 < le_tenure_penalty e \<longrightarrow>
            LEDGER_PENALTY r' (''ledger_penalties'', ''perf_tenure_ratio'', le_name e, le_address e)
              = Some ((le_performance_penalty e + le_dkg_penalty e) / le_tenure_penalty e)) \<and>
         fst (publish_penalty_ledger (LDict d) r0) = Returned \<and>
         out \<noteq> Raised ZeroDivisionError"
proof -
  let ?key = "(''ledger_penalties'', ''perf_tenure_ratio'', le_name e, le_address e)"
  let ?f = "fst (fetch_all cfg m addr)"
  let ?r1 = "snd (collect_system_usage cfg h r)"
  have pl: "penalty_ledger ?f = LDict d"
    by (simp add: fetch_all_values assms(4))
  from assms(6) have r': "r' = observe elapsed (snd (publish cfg addr name ?f ?r1))"
    and out: "out = fst (publish cfg addr name ?f ?r1)"
    by (simp_all add: stats_reached_publication [OF assms(1-3)])
  from publish_ledger_Dict [OF pl, of cfg addr name ?r1]
  obtain R where R: "LEDGER_PENALTY (snd (publish cfg addr name ?f ?r1)) =
      LEDGER_PENALTY (snd (publish_ledger_items d (R\<lparr>LEDGER_PENALTY := Map.empty\<rparr>)))"
    by blast
  have dist: "distinct (map (\<lambda>x. le_address (snd x)) d)"
    using assms(4) by (rule fetch_penalty_ledger_distinct)
  have val: "LEDGER_PENALTY r' ?key =
      (if 0 < le_tenure_penalty e
       then Some ((le_performance_penalty e + le_dkg_penalty e) / le_tenure_penalty e)
       else None)"
    by (simp add: r' observe_frame R publish_ledger_items_ratio [OF dist assms(5)])
  have ret: "fst (publish_penalty_ledger (LDict d) r0) = Returned"
    by (simp add: publish_penalty_ledger_outcome)
  have "out \<noteq> Raised ZeroDivisionError"
    by (simp add: out publish_outcome pl)
  with val ret show ?thesis by simp
qed

theorem perf_tenure_ratio_iff_positive_tenure_witness:
  "rpc_addr ex_miner = Some ''A1'' \<and> rpc_name ex_miner = Some ''N1'' \<and>
   \<not> COLLECT_SYSTEM_USAGE ex_config \<and>
   fst (fetch_penalty_ledger ex_config ex_miner ''A1'') = LDict [(''A1'', ex_entry)] \<and>
   (''A1'', ex_entry) \<in> set [(''A1'', ex_entry)] \<and>
   LEDGER_PENALTY (snd (snd (stats ex_config ex_host ex_miner 2 empty_registry)))
     (''ledger_penalties'', ''perf_tenure_ratio'', ''N1'', ''A1'') = Some (1 / 2) \<and>
   fst (stats ex_config ex_host ex_miner 2 empty_registry) \<noteq> Raised ZeroDivisionError"
proof -
  have run: "stats ex_config ex_host ex_miner 2 empty_registry =
       (fst (stats ex_config ex_host ex_miner 2 empty_registry),
        fst (snd (stats ex_config ex_host ex_miner 2 empty_registry)),
        snd (snd (stats ex_config ex_host ex_miner 2 empty_registry)))"
    by simp
  have id: "rpc_addr ex_miner = Some ''A1''" "rpc_name ex_miner = Some ''N1''"
    and ok: "COLLECT_SYSTEM_USAGE ex_config \<longrightarrow> disk_total ex_host \<noteq> 0"
    by (simp_all add: ex_miner_def ex_config_def)
  have d: "fst (fetch_penalty_ledger ex_config ex_miner ''A1'') = LDict [(''A1'', ex_entry)]"
    by (simp add: fetch_penalty_ledger_def ex_config_def ex_miner_def)
  have e: "(''A1'', ex_entry) \<in> set [(''A1'', ex_entry)]" by simp
  have off: "\<not> COLLECT_SYSTEM_USAGE ex_config" by (simp add: ex_config_def)
  from perf_tenure_ratio_iff_positive_tenure [OF id ok d e run, of empty_registry] id off d
  show ?thesis by (simp add: ex_entry_def)
qed

subsection \<open>The broaden flags\<close>

lemma stats_returned:
  assumes "rpc_addr m = Some addr" and "rpc_name m = Some name"
    and "fst (stats cfg h m elapsed r) = Returned"
  shows "COLLECT_SYSTEM_USAGE cfg \<longrightarrow> disk_total h \<noteq> 0"
    and "\<forall>l. fst (fetch_penalty_ledger cfg m addr) \<noteq> LList l"
    and "rpc_peer_book_self m \<noteq> Some []"
  using assms(3) unfolding stats_outcome
  by (auto simp add: assms(1,2) split: if_splits ledger_var.splits)

lemma stats_ledger_entities:
  assumes "rpc_addr m = Some addr" and "rpc_name m = Some name"
    and "COLLECT_SYSTEM_USAGE cfg \<longrightarrow> disk_total h \<noteq> 0"
    and "fst (fetch_penalty_ledger cfg m addr) = LDict d"
  shows "ledger_entity ` dom (LEDGER_PENALTY (snd (snd (stats cfg h m elapsed r)))) =
         (\<lambda>x. (le_name (snd x), le_address (snd x))) ` set d"
proof -
  let ?f = "fst (fetch_all cfg m addr)"
  let ?r1 = "snd (collect_system_usage cfg h r)"
  have pl: "penalty_ledger ?f = LDict d"
    by (simp add: fetch_all_values assms(4))
  from publish_ledger_Dict [OF pl, of cfg addr name ?r1]
  obtain R where R: "LEDGER_PENALTY (snd (publish cfg addr name ?f ?r1)) =
      LEDGER_PENALTY (snd (publish_ledger_items d (R\<lparr>LEDGER_PENALTY := Map.empty\<rparr>)))"
    by blast
  have "(\<lambda>(k, e). (le_name e, le_address e)) ` set d =
        (\<lambda>x. (le_name (snd x), le_address (snd x))) ` set d"
    by (rule image_cong) (simp_all add: split_beta)
  then show ?thesis
    by (simp add: stats_reached_publication [OF assms(1-3)] observe_frame R
          publish_ledger_items_entities)
qed

lemma stats_hbbft_entities:
  assumes "rpc_addr m = Some addr" and "rpc_name m = Some name"
    and "COLLECT_SYSTEM_USAGE cfg \<longrightarrow> disk_total h \<noteq> 0"
    and "\<forall>l. fst (fetch_penalty_ledger cfg m addr) \<noteq> LList l"
    and "rpc_hbbft_perf m = Some p"
  shows "hbbft_entity ` dom (HBBFT_PERF (snd (snd (stats cfg h m elapsed r)))) =
         cm_name ` {member \<in> set (hp_consensus_members p).
                     cm_address member = addr \<or> ALL_HBBFT cfg}"
proof -
  let ?f = "fst (fetch_all cfg m addr)"
  have hp: "hbbft_perf ?f = Some p" and pl: "\<forall>l. penalty_ledger ?f \<noteq> LList l"
    by (simp_all add: fetch_all_values assms(4,5))
  show ?thesis
    by (simp add: stats_reached_publication [OF assms(1-3)] observe_frame
          publish_hbbft_field_Some [OF hp pl])
qed

text \<open>
  C5, as amended. After a cycle that got past the identity gate and returned:
  with \<open>ALL_PENALTIES\<close> off, the ledger family holds samples of one entity, the
  entry returned for the validator's own address; with \<open>ALL_PENALTIES\<close> on, the
  addresses in the family are those of the staked entries of the ledger, and when no
  two staked entries share an address the entities are exactly the staked entries.
  The HBBFT family holds samples of the members whose address is the validator's own
  (none, when the validator is not in the consensus group) with \<open>ALL_HBBFT\<close> off, and
  of every member with \<open>ALL_HBBFT\<close> on.
\<close>

theorem broaden_flags_entities:
  assumes "rpc_addr m = Some addr" and "rpc_name m = Some name"
    and "stats cfg h m elapsed r = (Returned, evs, r')"
  shows "(\<not> ALL_PENALTIES cfg \<longrightarrow>
            (\<forall>e. rpc_ledger_validators_for m addr = Some e \<longrightarrow>
               ledger_entity ` dom (LEDGER_PENALTY r') = {(le_name e, le_address e)})) \<and>
         (ALL_PENALTIES cfg \<longrightarrow>
            (\<forall>l2. rpc_ledger_validators m \<noteq> None \<and> rpc_ledger_validators_again m = Some l2 \<longrightarrow>
               snd ` ledger_entity ` dom (LEDGER_PENALTY r') =
                 le_address ` {v \<in> set l2. le_status v = ''staked''} \<and>
               (distinct (map le_address (filter (\<lambda>v. le_status v = ''staked'') l2)) \<longrightarrow>
                  ledger_entity ` dom (LEDGER_PENALTY r') =
                    (\<lambda>v. (le_name v, le_address v)) ` {v \<in> set l2. le_status v = ''staked''}))) \<and>
         (\<forall>p. rpc_hbbft_perf m = Some p \<longrightarrow>
            hbbft_entity ` dom (HBBFT_PERF r') =
              cm_name ` {member \<in> set (hp_consensus_members p).
                          cm_address member = addr \<or> ALL_HBBFT cfg})"
proof -
  from assms(3) have ret: "fst (stats cfg h m elapsed r) = Returned"
    and r': "snd (snd (stats cfg h m elapsed r)) = r'"
    by simp_all
  note ok = stats_returned [OF assms(1,2) ret]
  have self: "ledger_entity ` dom (LEDGER_PENALTY r') = {(le_name e, le_address e)}"
    if "\<not> ALL_PENALTIES cfg" and "rpc_ledger_validators_for m addr = Some e" for e
  proof -
    from that have "fst (fetch_penalty_ledger cfg m addr) = LDict [(addr, e)]"
      by (simp add: fetch_penalty_ledger_def)
    from stats_ledger_entities [OF assms(1,2) ok(1) this, of elapsed r]
    show ?thesis by (simp add: r')
  qed
  have all: "ledger_entity ` dom (LEDGER_PENALTY r') =
             (\<lambda>x. (le_name (snd x), le_address (snd x))) ` set (staked_dict l2)"
    if "ALL_PENALTIES cfg" and "rpc_ledger_validators m \<noteq> None"
      and "rpc_ledger_validators_again m = Some l2" for l2
  proof -
    from that have "fst (fetch_penalty_ledger cfg m addr) = LDict (staked_dict l2)"
      by (auto simp add: fetch_penalty_ledger_def)
    from stats_ledger_entities [OF assms(1,2) ok(1) this, of elapsed r]
    show ?thesis by (simp add: r')
  qed
  have all_addr: "snd ` ledger_entity ` dom (LEDGER_PENALTY r') =
                  le_address ` {v \<in> set l2. le_status v = ''staked''}"
    if "ALL_PENALTIES cfg" and "rpc_ledger_validators m \<noteq> None"
      and "rpc_ledger_validators_again m = Some l2" for l2
  proof -
    have "snd ` ledger_entity ` dom (LEDGER_PENALTY r') = le_address ` snd ` set (staked_dict l2)"
      by (simp add: all [OF that] image_image)
    then show ?thesis by (simp only: staked_dict_addresses)
  qed
  have all_ent: "ledger_entity ` dom (LEDGER_PENALTY r') =
                 (\<lambda>v. (le_name v, le_address v)) ` {v \<in> set l2. le_status v = ''staked''}"
    if "ALL_PENALTIES cfg" and "rpc_ledger_validators m \<noteq> None"
      and "rpc_ledger_validators_again m = Some l2"
      and "distinct (map le_address (filter (\<lambda>v. le_status v = ''staked'') l2))" for l2
  proof -
    have "ledger_entity ` dom (LEDGER_PENALTY r') =
          (\<lambda>v. (le_name v, le_address v)) ` snd ` set (staked_dict l2)"
      by (simp add: all [OF that(1-3)] image_image)
    then show ?thesis by (simp only: staked_dict_values [OF that(4)])
  qed
  have hb: "hbbft_entity ` dom (HBBFT_PERF r') =
            cm_name ` {member \<in> set (hp_consensus_members p).
                        cm_address member = addr \<or> ALL_HBBFT cfg}"
    if "rpc_hbbft_perf m = Some p" for p
    using stats_hbbft_entities [OF assms(1,2) ok(1,2) that, of elapsed r] by (simp add: r')
  show ?thesis
  proof (intro conjI impI allI)
    fix e assume "\<not> ALL_PENALTIES cfg" and "rpc_ledger_validators_for m addr = Some e"
    then show "ledger_entity ` dom (LEDGER_PENALTY r') = {(le_name e, le_address e)}"
      by (rule self)
  next
    fix l2 assume "ALL_PENALTIES cfg"
      and "rpc_ledger_validators m \<noteq> None \<and> rpc_ledger_validators_again m = Some l2"
    then show "snd ` ledger_entity ` dom (LEDGER_PENALTY r') =
               le_address ` {v \<in> set l2. le_status v = ''staked''}"
      by (elim conjE) (rule all_addr)
  next
    fix l2 assume "ALL_PENALTIES cfg"
      and "rpc_ledger_validators m \<noteq> None \<and> rpc_ledger_validators_again m = Some l2"
      and "distinct (map le_address (filter (\<lambda>v. le_status v = ''staked'') l2))"
    then show "ledger_entity ` dom (LEDGER_PENALTY r') =
               (\<lambda>v. (le_name v, le_address v)) ` {v \<in> set l2. le_status v = ''staked''}"
      by (elim conjE) (rule all_ent)
  next
    fix p assume "rpc_hbbft_perf m = Some p"
    then show "hbbft_entity ` dom (HBBFT_PERF r') =
               cm_name ` {member \<in> set (hp_consensus_members p).
                           cm_address member = addr \<or> ALL_HBBFT cfg}"
      by (rule hb)
  qed
qed

lemma ex_miner_identity:
  "rpc_addr ex_miner = Some ''A1''" "rpc_name ex_miner = Some ''N1''"
  by (simp_all add: ex_miner_def)

lemma ex_miner_returned:
  "fst (stats ex_config ex_host ex_miner 2 empty_registry) = Returned"
  "fst (stats (ex_config\<lparr>ALL_HBBFT := True, ALL_PENALTIES := True\<rparr>) ex_host ex_miner 2
          empty_registry) = Returned"
  by (simp_all add: stats_outcome fetch_penalty_ledger_def ex_miner_def ex_config_def)

theorem broaden_flags_entities_witness:
  "rpc_addr ex_miner = Some ''A1'' \<and> rpc_name ex_miner = Some ''N1'' \<and>
   fst (stats ex_config ex_host ex_miner 2 empty_registry) = Returned \<and>
   ledger_entity ` dom (LEDGER_PENALTY (snd (snd (stats ex_config ex_host ex_miner 2
      empty_registry)))) = {(''N1'', ''A1'')} \<and>
   hbbft_entity ` dom (HBBFT_PERF (snd (snd (stats ex_config ex_host ex_miner 2
      empty_registry)))) = {''N1''} \<and>
   fst (stats (ex_config\<lparr>ALL_HBBFT := True, ALL_PENALTIES := True\<rparr>) ex_host ex_miner 2
      empty_registry) = Returned \<and>
   ledger_entity ` dom (LEDGER_PENALTY (snd (snd (stats
      (ex_config\<lparr>ALL_HBBFT := True, ALL_PENALTIES := True\<rparr>) ex_host ex_miner 2
      empty_registry)))) = {(''N1'', ''A1''), (''N2'', ''A2'')} \<and>
   hbbft_entity ` dom (HBBFT_PERF (snd (snd (stats
      (ex_config\<lparr>ALL_HBBFT := True, ALL_PENALTIES := True\<rparr>) ex_host ex_miner 2
      empty_registry)))) = {''N1'', ''N2''}"
proof -
  let ?all = "ex_config\<lparr>ALL_HBBFT := True, ALL_PENALTIES := True\<rparr>"
  let ?s1 = "stats ex_config ex_host ex_miner 2 empty_registry"
  let ?s2 = "stats ?all ex_host ex_miner 2 empty_registry"
  have run1: "?s1 = (Returned, fst (snd ?s1), snd (snd ?s1))"
    using ex_miner_returned(1) by (metis prod.collapse)
  have run2: "?s2 = (Returned, fst (snd ?s2), snd (snd ?s2))"
    using ex_miner_returned(2) by (metis prod.collapse)
  note off = broaden_flags_entities [OF ex_miner_identity run1]
  note on = broaden_flags_entities [OF ex_miner_identity run2]
  have flags: "\<not> ALL_PENALTIES ex_config" "\<not> ALL_HBBFT ex_config" "ALL_PENALTIES ?all"
    "ALL_HBBFT ?all"
    by (simp_all add: ex_config_def)
  have self: "rpc_ledger_validators_for ex_miner ''A1'' = Some ex_entry"
    and l: "rpc_ledger_validators ex_miner \<noteq> None"
      "rpc_ledger_validators_again ex_miner = Some [ex_entry, ex_entry2]"
    and hp: "rpc_hbbft_perf ex_miner =
      Some \<lparr>hp_blocks_since_epoch = 20, hp_max_seen = 30,
            hp_consensus_members = [ex_member, ex_member2]\<rparr>"
    by (simp_all add: ex_miner_def)
  have dist: "distinct (map le_address (filter (\<lambda>v. le_status v = ''staked'')
                [ex_entry, ex_entry2]))"
    by (simp add: ex_entry_def ex_entry2_def)
  from off [THEN conjunct1, rule_format, OF flags(1) self]
  have a: "ledger_entity ` dom (LEDGER_PENALTY (snd (snd ?s1))) = {(''N1'', ''A1'')}"
    by (simp add: ex_entry_def)
  from off [THEN conjunct2, THEN conjunct2, rule_format, OF hp]
  have "hbbft_entity ` dom (HBBFT_PERF (snd (snd ?s1))) =
        cm_name ` {member \<in> set [ex_member, ex_member2].
                    cm_address member = ''A1'' \<or> ALL_HBBFT ex_config}"
    by (simp only: hbbft_perf.simps)
  also have "\<dots> = cm_name ` set (filter (\<lambda>member. cm_address member = ''A1'' \<or>
                      ALL_HBBFT ex_config) [ex_member, ex_member2])"
    by (simp only: set_filter)
  also have "\<dots> = {''N1''}"
    by (simp add: flags ex_member_def ex_member2_def)
  finally have b: "hbbft_entity ` dom (HBBFT_PERF (snd (snd ?s1))) = {''N1''}" .
  from on [THEN conjunct2, THEN conjunct1, rule_format, OF flags(3) conjI [OF l],
             THEN conjunct2, rule_format, OF dist]
  have "ledger_entity ` dom (LEDGER_PENALTY (snd (snd ?s2))) =
        (\<lambda>v. (le_name v, le_address v)) ` {v \<in> set [ex_entry, ex_entry2]. le_status v = ''staked''}" .
  also have "\<dots> = (\<lambda>v. (le_name v, le_address v)) `
      set (filter (\<lambda>v. le_status v = ''staked'') [ex_entry, ex_entry2])"
    by (simp only: set_filter)
  also have "\<dots> = {(''N1'', ''A1''), (''N2'', ''A2'')}"
    by (simp add: ex_entry_def ex_entry2_def)
  finally have c: "ledger_entity ` dom (LEDGER_PENALTY (snd (snd ?s2))) =
                   {(''N1'', ''A1''), (''N2'', ''A2'')}" .
  from on [THEN conjunct2, THEN conjunct2, rule_format, OF hp]
  have "hbbft_entity ` dom (HBBFT_PERF (snd (snd ?s2))) =
        cm_name ` {member \<in> set [ex_member, ex_member2].
                    cm_address member = ''A1'' \<or> ALL_HBBFT ?all}"
    by (simp only: hbbft_perf.simps)
  also have "\<dots> = cm_name ` set (filter (\<lambda>member. cm_address member = ''A1'' \<or>
                      ALL_HBBFT ?all) [ex_member, ex_member2])"
    by (simp only: set_filter)
  also have "\<dots> = {''N1'', ''N2''}"
    by (simp add: flags ex_member_def ex_member2_def)
  finally have d: "hbbft_entity ` dom (HBBFT_PERF (snd (snd ?s2))) = {''N1'', ''N2''}" .
  from ex_miner_identity ex_miner_returned a b c d show ?thesis by simp
qed

theorem self_outside_consensus_group:
  "\<not> ALL_HBBFT ex_config \<and> \<not> ALL_PENALTIES ex_config \<and>
   rpc_hbbft_perf (ex_miner\<lparr>rpc_hbbft_perf :=
       Some \<lparr>hp_blocks_since_epoch = 20, hp_max_seen = 30,
             hp_consensus_members = [ex_member2]\<rparr>\<rparr>) \<noteq> None \<and>
   fst (stats ex_config ex_host
         (ex_miner\<lparr>rpc_hbbft_perf :=
            Some \<lparr>hp_blocks_since_epoch = 20, hp_max_seen = 30,
                  hp_consensus_members = [ex_member2]\<rparr>\<rparr>) 2 empty_registry) = Returned \<and>
   dom (HBBFT_PERF (snd (snd (stats ex_config ex_host
         (ex_miner\<lparr>rpc_hbbft_perf :=
            Some \<lparr>hp_blocks_since_epoch = 20, hp_max_seen = 30,
                  hp_consensus_members = [ex_member2]\<rparr>\<rparr>) 2 empty_registry)))) = {}"
proof -
  let ?m = "ex_miner\<lparr>rpc_hbbft_perf :=
            Some \<lparr>hp_blocks_since_epoch = 20, hp_max_seen = 30,
                  hp_consensus_members = [ex_member2]\<rparr>\<rparr>"
  have id: "rpc_addr ?m = Some ''A1''" "rpc_name ?m = Some ''N1''"
    by (simp_all add: ex_miner_def)
  have flags: "\<not> ALL_HBBFT ex_config" "\<not> ALL_PENALTIES ex_config"
    and ok: "COLLECT_SYSTEM_USAGE ex_config \<longrightarrow> disk_total ex_host \<noteq> 0"
    by (simp_all add: ex_config_def)
  have pl: "\<forall>l. fst (fetch_penalty_ledger ex_config ?m ''A1'') \<noteq> LList l"
    by (simp add: fetch_penalty_ledger_def ex_config_def ex_miner_def)
  have hp: "rpc_hbbft_perf ?m = Some \<lparr>hp_blocks_since_epoch = 20, hp_max_seen = 30,
                  hp_consensus_members = [ex_member2]\<rparr>"
    by simp
  have ret: "fst (stats ex_config ex_host ?m 2 empty_registry) = Returned"
    by (simp add: stats_outcome fetch_penalty_ledger_def ex_miner_def ex_config_def)
  have "hbbft_entity ` dom (HBBFT_PERF (snd (snd (stats ex_config ex_host ?m 2 empty_registry))))
        = cm_name ` {member \<in> set [ex_member2]. cm_address member = ''A1'' \<or> ALL_HBBFT ex_config}"
    using stats_hbbft_entities [OF id ok pl hp, of 2 empty_registry]
    by (simp only: hbbft_perf.simps)
  also have "\<dots> = cm_name ` set (filter (\<lambda>member. cm_address member = ''A1'' \<or>
                      ALL_HBBFT ex_config) [ex_member2])"
    by (simp only: set_filter)
  also have "\<dots> = {}"
    by (simp add: flags ex_member2_def)
  finally have "dom (HBBFT_PERF (snd (snd (stats ex_config ex_host ?m 2 empty_registry)))) = {}"
    by simp
  with flags ret show ?thesis by simp
qed

subsection \<open>More frame conditions\<close>


lemma frame_connections:
  "CONNECTIONS (observe d r) = CONNECTIONS r"
  "CONNECTIONS (snd (collect_system_usage cfg h r)) = CONNECTIONS r"
  "CONNECTIONS (publish_height n hi r) = CONNECTIONS r"
  "CONNECTIONS (publish_in_consensus n ic r) = CONNECTIONS r"
  "CONNECTIONS (publish_balance n bal r) = CONNECTIONS r"
  "CONNECTIONS (publish_block_age n ba r) = CONNECTIONS r"
  "CONNECTIONS (publish_version n ver r) = CONNECTIONS r"
  by (cases "COLLECT_SYSTEM_USAGE cfg"; cases "disk_total h = 0";
      simp add: observe_def collect_system_usage_zero collect_system_usage_on
        collect_system_usage_off publish_height_def publish_in_consensus_def publish_balance_def
        publish_block_age_def publish_version_def Let_def
      split: option.splits list.splits)+





lemma publish_peer_book_empty_as_failed:
  "snd (publish_peer_book name (Some []) r) = snd (publish_peer_book name None r)"
  by (simp add: publish_peer_book_def)




lemma publish_peer_book_info_update:
  "\<forall>l. penalty_ledger f \<noteq> LList l \<Longrightarrow>
   snd (publish cfg addr name (f\<lparr>peer_book_info := Some []\<rparr>) r) =
   snd (publish cfg addr name (f\<lparr>peer_book_info := None\<rparr>) r)"
  by (simp add: publish_unfold Let_def publish_peer_book_def split: ledger_var.splits)

subsection \<open>The driver loop and the heartbeat family\<close>


lemma publish_heartbeat_other:
  assumes "\<forall>d. penalty_ledger f = LDict d \<longrightarrow>
             k \<notin> (\<lambda>x. (le_name (snd x), le_address (snd x))) ` set d"
  shows "HEARTBEAT (snd (publish cfg addr name f r)) k = HEARTBEAT r k"
proof -
  let ?r5 = "publish_version name (version f) (publish_block_age name (block_age f)
             (publish_balance name (balance f) (publish_in_consensus name (in_consensus f)
             (publish_height name (height_info f) r))))"
  have a: "HEARTBEAT ?r5 = HEARTBEAT r"
    by (simp add: publish_simple_frame)
  have c: "HEARTBEAT (snd (publish cfg addr name f r)) =
           HEARTBEAT (snd (publish_penalty_ledger (penalty_ledger f) ?r5))"
    by (simp add: publish_unfold Let_def publish_peer_book_frame publish_hbbft_frame
          split: ledger_var.splits)
  have "HEARTBEAT (snd (publish_penalty_ledger (penalty_ledger f) ?r5)) k = HEARTBEAT ?r5 k"
  proof (cases "penalty_ledger f")
    case LNone
    then show ?thesis by (simp add: publish_penalty_ledger_def)
  next
    case (LList l)
    then show ?thesis by (simp add: publish_penalty_ledger_def)
  next
    case (LDict d)
    with assms have "k \<notin> (\<lambda>x. (le_name (snd x), le_address (snd x))) ` set d" by blast
    moreover have "(\<lambda>x. (le_name (snd x), le_address (snd x))) ` set d =
                   (\<lambda>(k, e). (le_name e, le_address e)) ` set d"
      by (rule image_cong) (simp_all add: split_beta)
    ultimately have "k \<notin> (\<lambda>(k, e). (le_name e, le_address e)) ` set d" by simp
    then show ?thesis
      by (simp add: LDict publish_penalty_ledger_def publish_ledger_items_heartbeat_other)
  qed
  with a c show ?thesis by simp
qed

lemma stats_heartbeat_dom:
  "dom (HEARTBEAT r) \<subseteq> dom (HEARTBEAT (snd (snd (stats cfg h m elapsed r))))"
proof (cases "rpc_addr m = None \<or> rpc_name m = None")
  case True
  then show ?thesis by (simp add: stats_gate observe_frame)
next
  case False
  then obtain addr name where id: "rpc_addr m = Some addr" "rpc_name m = Some name"
    by auto
  show ?thesis
  proof (cases "COLLECT_SYSTEM_USAGE cfg \<and> disk_total h = 0")
    case True
    then show ?thesis
      by (simp add: stats_stopped_at_sampling [OF id] observe_frame collect_system_usage_frame)
  next
    case False
    then have ok: "COLLECT_SYSTEM_USAGE cfg \<longrightarrow> disk_total h \<noteq> 0" by blast
    from publish_heartbeat_dom [of "snd (collect_system_usage cfg h r)" cfg addr name
           "fst (fetch_all cfg m addr)"]
    show ?thesis
      by (simp add: stats_reached_publication [OF id ok] observe_frame
            collect_system_usage_frame)
  qed
qed

lemma stats_heartbeat_other:
  assumes "\<forall>addr d. rpc_addr m = Some addr \<and> fst (fetch_penalty_ledger cfg m addr) = LDict d \<longrightarrow>
             k \<notin> (\<lambda>x. (le_name (snd x), le_address (snd x))) ` set d"
  shows "HEARTBEAT (snd (snd (stats cfg h m elapsed r))) k = HEARTBEAT r k"
proof (cases "rpc_addr m = None \<or> rpc_name m = None")
  case True
  then show ?thesis by (simp add: stats_gate observe_frame)
next
  case False
  then obtain addr name where id: "rpc_addr m = Some addr" "rpc_name m = Some name"
    by auto
  show ?thesis
  proof (cases "COLLECT_SYSTEM_USAGE cfg \<and> disk_total h = 0")
    case True
    then show ?thesis
      by (simp add: stats_stopped_at_sampling [OF id] observe_frame collect_system_usage_frame)
  next
    case False
    then have ok: "COLLECT_SYSTEM_USAGE cfg \<longrightarrow> disk_total h \<noteq> 0" by blast
    have "\<forall>d. penalty_ledger (fst (fetch_all cfg m addr)) = LDict d \<longrightarrow>
             k \<notin> (\<lambda>x. (le_name (snd x), le_address (snd x))) ` set d"
      using assms id(1) by (simp add: fetch_all_values)
    from publish_heartbeat_other [OF this, of cfg addr name "snd (collect_system_usage cfg h r)"]
    show ?thesis
      by (simp add: stats_reached_publication [OF id ok] observe_frame
            collect_system_usage_frame)
  qed
qed


lemma main_loop_Cons_registry:
  "snd (snd (main_loop cfg (c # cs) r)) =
     (case fst (stats cfg (cy_host c) (cy_miner c) (cy_elapsed c) r) of
        Returned \<Rightarrow>
          snd (snd (main_loop cfg cs
            (snd (snd (stats cfg (cy_host c) (cy_miner c) (cy_elapsed c) r)))))
      | Raised e \<Rightarrow>
          if e = ValueError
          then snd (snd (main_loop cfg cs
                 (snd (snd (stats cfg (cy_host c) (cy_miner c) (cy_elapsed c) r)))))
          else snd (snd (stats cfg (cy_host c) (cy_miner c) (cy_elapsed c) r)))"
  by (simp split: prod.splits outcome.splits)

lemma main_loop_escape:
  "fst (stats cfg (cy_host c) (cy_miner c) (cy_elapsed c) r) = Raised e \<Longrightarrow> e \<noteq> ValueError \<Longrightarrow>
   main_loop cfg (c # cs) r =
     (Exited e, fst (snd (stats cfg (cy_host c) (cy_miner c) (cy_elapsed c) r)),
      snd (snd (stats cfg (cy_host c) (cy_miner c) (cy_elapsed c) r)))"
  by (cases "stats cfg (cy_host c) (cy_miner c) (cy_elapsed c) r") simp

lemma main_loop_heartbeat_dom:
  "dom (HEARTBEAT r) \<subseteq> dom (HEARTBEAT (snd (snd (main_loop cfg cs r))))"
proof (induction cs arbitrary: r)
  case Nil
  show ?case by simp
next
  case (Cons c cs)
  let ?r1 = "snd (snd (stats cfg (cy_host c) (cy_miner c) (cy_elapsed c) r))"
  have step: "dom (HEARTBEAT r) \<subseteq> dom (HEARTBEAT ?r1)"
    by (rule stats_heartbeat_dom)
  have rest: "dom (HEARTBEAT ?r1) \<subseteq> dom (HEARTBEAT (snd (snd (main_loop cfg cs ?r1))))"
    by (rule Cons.IH)
  have "snd (snd (main_loop cfg (c # cs) r)) = ?r1 \<or>
        snd (snd (main_loop cfg (c # cs) r)) = snd (snd (main_loop cfg cs ?r1))"
    unfolding main_loop_Cons_registry by (simp split: outcome.splits)
  then show ?case
  proof
    assume "snd (snd (main_loop cfg (c # cs) r)) = ?r1"
    with step show ?thesis by (simp only:)
  next
    assume "snd (snd (main_loop cfg (c # cs) r)) = snd (snd (main_loop cfg cs ?r1))"
    with subset_trans [OF step rest] show ?thesis by (simp only:)
  qed
qed




text \<open>
  C10. No cycle removes a label of the heartbeat family: the labels present before
  a cycle are present after it, and after any number of cycles of the driver. A label
  keeps its value through a cycle whose ledger dictionary has no entry of that name
  and address.
\<close>

theorem heartbeat_never_evicted:
  "dom (HEARTBEAT r) \<subseteq> dom (HEARTBEAT (snd (snd (stats cfg h m elapsed r)))) \<and>
   dom (HEARTBEAT r) \<subseteq> dom (HEARTBEAT (snd (snd (main_loop cfg cs r)))) \<and>
   ((\<forall>addr d. rpc_addr m = Some addr \<and> fst (fetch_penalty_ledger cfg m addr) = LDict d \<longrightarrow>
        (n, a) \<notin> (\<lambda>x. (le_name (snd x), le_address (snd x))) ` set d) \<longrightarrow>
    HEARTBEAT (snd (snd (stats cfg h m elapsed r))) (n, a) = HEARTBEAT r (n, a))"
  using stats_heartbeat_dom [of r cfg h m elapsed] main_loop_heartbeat_dom [of r cfg cs]
    stats_heartbeat_other [of m cfg "(n, a)" h elapsed r]
  by blast

theorem heartbeat_never_evicted_witness:
  "rpc_addr ex_miner = Some ''A1'' \<and>
   fst (fetch_penalty_ledger ex_config ex_miner ''A1'') = LDict [(''A1'', ex_entry)] \<and>
   (''N2'', ''A2'') \<notin> (\<lambda>x. (le_name (snd x), le_address (snd x))) ` set [(''A1'', ex_entry)] \<and>
   HEARTBEAT (snd (snd (stats ex_config ex_host ex_miner 2
       (empty_registry\<lparr>HEARTBEAT := [(''N2'', ''A2'') \<mapsto> 9],
          LEDGER_PENALTY := [(''ledger_penalties'', ''total'', ''N2'', ''A2'') \<mapsto> 5]\<rparr>))))
     (''N2'', ''A2'') = Some 9 \<and>
   (''N2'', ''A2'') \<notin> ledger_entity ` dom (LEDGER_PENALTY (snd (snd (stats ex_config ex_host
       ex_miner 2
       (empty_registry\<lparr>HEARTBEAT := [(''N2'', ''A2'') \<mapsto> 9],
          LEDGER_PENALTY := [(''ledger_penalties'', ''total'', ''N2'', ''A2'') \<mapsto> 5]\<rparr>))))) \<and>
   (''N2'', ''A2'') \<in> dom (HEARTBEAT (snd (snd (main_loop ex_config
       [\<lparr>cy_miner = ex_miner, cy_host = ex_host, cy_elapsed = 2\<rparr>,
        \<lparr>cy_miner = ex_miner_down, cy_host = ex_host, cy_elapsed = 2\<rparr>]
       (empty_registry\<lparr>HEARTBEAT := [(''N2'', ''A2'') \<mapsto> 9],
          LEDGER_PENALTY := [(''ledger_penalties'', ''total'', ''N2'', ''A2'') \<mapsto> 5]\<rparr>)))))"
proof -
  let ?r0 = "empty_registry\<lparr>HEARTBEAT := [(''N2'', ''A2'') \<mapsto> 9],
          LEDGER_PENALTY := [(''ledger_penalties'', ''total'', ''N2'', ''A2'') \<mapsto> 5]\<rparr>"
  let ?cs = "[\<lparr>cy_miner = ex_miner, cy_host = ex_host, cy_elapsed = 2\<rparr>,
        \<lparr>cy_miner = ex_miner_down, cy_host = ex_host, cy_elapsed = 2\<rparr>]"
  have id: "rpc_addr ex_miner = Some ''A1''" "rpc_name ex_miner = Some ''N1''"
    and ok: "COLLECT_SYSTEM_USAGE ex_config \<longrightarrow> disk_total ex_host \<noteq> 0"
    by (simp_all add: ex_miner_def ex_config_def)
  have d: "fst (fetch_penalty_ledger ex_config ex_miner ''A1'') = LDict [(''A1'', ex_entry)]"
    by (simp add: fetch_penalty_ledger_def ex_config_def ex_miner_def)
  have absent: "\<forall>addr d. rpc_addr ex_miner = Some addr \<and>
       fst (fetch_penalty_ledger ex_config ex_miner addr) = LDict d \<longrightarrow>
       (''N2'', ''A2'') \<notin> (\<lambda>x. (le_name (snd x), le_address (snd x))) ` set d"
    by (auto simp add: id(1) d ex_entry_def)
  have before: "(''N2'', ''A2'') \<in> dom (HEARTBEAT ?r0)" "HEARTBEAT ?r0 (''N2'', ''A2'') = Some 9"
    by simp_all
  have "ledger_entity ` dom (LEDGER_PENALTY (snd (snd (stats ex_config ex_host ex_miner 2 ?r0))))
        = {(''N1'', ''A1'')}"
    using stats_ledger_entities [OF id ok d, of 2 ?r0] by (simp add: ex_entry_def)
  then have gone: "(''N2'', ''A2'') \<notin> ledger_entity ` dom (LEDGER_PENALTY
        (snd (snd (stats ex_config ex_host ex_miner 2 ?r0))))"
    by simp
  note inst = heartbeat_never_evicted [of ?r0 ex_config ex_host ex_miner 2 ?cs "''N2''" "''A2''"]
  from inst absent before(2)
  have kept: "HEARTBEAT (snd (snd (stats ex_config ex_host ex_miner 2 ?r0))) (''N2'', ''A2'') =
              Some 9"
    by simp
  from inst before(1)
  have later: "(''N2'', ''A2'') \<in> dom (HEARTBEAT (snd (snd (main_loop ex_config ?cs ?r0))))"
    by blast
  have "(''N2'', ''A2'') \<notin> (\<lambda>x. (le_name (snd x), le_address (snd x))) ` set [(''A1'', ex_entry)]"
    by (simp add: ex_entry_def)
  with id(1) d kept gone later show ?thesis by blast
qed




subsection \<open>The second ledger call\<close>

lemma fetch_penalty_ledger_second_call_fails:
  assumes "ALL_PENALTIES cfg" and "rpc_ledger_validators m = Some l1"
    and "rpc_ledger_validators_again m = None"
  shows "fetch_penalty_ledger cfg m addr =
     (LList l1, [Call LedgerValidators, Call LedgerValidators,
                 LogError ''validator fetch failure''])"
  using assms by (simp add: fetch_penalty_ledger_def)

lemma publish_list_connections:
  "penalty_ledger f = LList l \<Longrightarrow>
   CONNECTIONS (snd (publish cfg addr name f r)) = CONNECTIONS r"
  by (simp add: publish_unfold Let_def publish_penalty_ledger_def frame_connections)

lemma stats_ledger_untouched:
  assumes "rpc_addr m = Some addr" and "fst (fetch_penalty_ledger cfg m addr) = LNone"
  shows "LEDGER_PENALTY (snd (snd (stats cfg h m elapsed r))) = LEDGER_PENALTY r"
proof (cases "rpc_name m")
  case None
  then show ?thesis by (simp add: stats_gate observe_frame)
next
  case (Some name)
  show ?thesis
  proof (cases "COLLECT_SYSTEM_USAGE cfg \<and> disk_total h = 0")
    case True
    then show ?thesis
      by (simp add: stats_stopped_at_sampling [OF assms(1) Some] observe_frame
            collect_system_usage_frame)
  next
    case False
    then have ok: "COLLECT_SYSTEM_USAGE cfg \<longrightarrow> disk_total h \<noteq> 0" by blast
    have "penalty_ledger (fst (fetch_all cfg m addr)) = LNone"
      by (simp add: fetch_all_values assms(2))
    from publish_ledger_None [OF this, of cfg addr name "snd (collect_system_usage cfg h r)"]
    show ?thesis
      by (simp add: stats_reached_publication [OF assms(1) Some ok] observe_frame
            collect_system_usage_frame)
  qed
qed

lemma stats_hbbft_untouched:
  assumes "rpc_hbbft_perf m = None"
  shows "HBBFT_PERF (snd (snd (stats cfg h m elapsed r))) = HBBFT_PERF r"
proof (cases "rpc_addr m = None \<or> rpc_name m = None")
  case True
  then show ?thesis by (simp add: stats_gate observe_frame)
next
  case False
  then obtain addr name where id: "rpc_addr m = Some addr" "rpc_name m = Some name"
    by auto
  show ?thesis
  proof (cases "COLLECT_SYSTEM_USAGE cfg \<and> disk_total h = 0")
    case True
    then show ?thesis
      by (simp add: stats_stopped_at_sampling [OF id] observe_frame collect_system_usage_frame)
  next
    case False
    then have ok: "COLLECT_SYSTEM_USAGE cfg \<longrightarrow> disk_total h \<noteq> 0" by blast
    have "hbbft_perf (fst (fetch_all cfg m addr)) = None"
      by (simp add: fetch_all_values assms)
    from publish_hbbft_field_None [OF this, of cfg addr name "snd (collect_system_usage cfg h r)"]
    show ?thesis
      by (simp add: stats_reached_publication [OF id ok] observe_frame
            collect_system_usage_frame)
  qed
qed

text \<open>
  C1, where the code departs from the claim. With \<open>ALL_PENALTIES\<close> on, when the first
  ledger call returns and the second raises, the fetch has failed (the failure is
  logged) and yet the ledger family is cleared, while the HBBFT family is not, whatever
  the HBBFT call returned: the cycle ends in an \<open>AttributeError\<close> between the two.
\<close>

theorem failed_ledger_fetch_clears_family:
  assumes "rpc_addr m = Some addr" and "rpc_name m = Some name"
    and "COLLECT_SYSTEM_USAGE cfg \<longrightarrow> disk_total h \<noteq> 0"
    and "ALL_PENALTIES cfg" and "rpc_ledger_validators m = Some l1"
    and "rpc_ledger_validators_again m = None"
  shows "LogError ''validator fetch failure'' \<in> set (fst (snd (stats cfg h m elapsed r))) \<and>
         LEDGER_PENALTY (snd (snd (stats cfg h m elapsed r))) = Map.empty \<and>
         HBBFT_PERF (snd (snd (stats cfg h m elapsed r))) = HBBFT_PERF r \<and>
         fst (stats cfg h m elapsed r) = Raised AttributeError"
proof -
  let ?f = "fst (fetch_all cfg m addr)"
  note pl = fetch_penalty_ledger_second_call_fails [OF assms(4-6), of addr]
  have f: "penalty_ledger ?f = LList l1"
    by (simp add: fetch_all_values pl)
  have log: "LogError ''validator fetch failure'' \<in> set (fst (snd (stats cfg h m elapsed r)))"
    by (simp add: stats_reached_publication [OF assms(1-3)] fetch_all_events pl)
  have out: "fst (stats cfg h m elapsed r) = Raised AttributeError"
    by (simp add: stats_outcome assms(1-3) pl)
  from publish_ledger_List [OF f, of cfg addr name "snd (collect_system_usage cfg h r)"]
  have "LEDGER_PENALTY (snd (snd (stats cfg h m elapsed r))) = Map.empty"
    and "HBBFT_PERF (snd (snd (stats cfg h m elapsed r))) = HBBFT_PERF r"
    by (simp_all add: stats_reached_publication [OF assms(1-3)] observe_frame
          collect_system_usage_frame)
  with log out show ?thesis by simp
qed

theorem failed_ledger_fetch_clears_family_witness:
  "rpc_addr (ex_miner\<lparr>rpc_ledger_validators_again := None\<rparr>) = Some ''A1'' \<and>
   rpc_name (ex_miner\<lparr>rpc_ledger_validators_again := None\<rparr>) = Some ''N1'' \<and>
   \<not> COLLECT_SYSTEM_USAGE (ex_config\<lparr>ALL_PENALTIES := True\<rparr>) \<and>
   ALL_PENALTIES (ex_config\<lparr>ALL_PENALTIES := True\<rparr>) \<and>
   rpc_ledger_validators (ex_miner\<lparr>rpc_ledger_validators_again := None\<rparr>) =
     Some [ex_entry, ex_entry2] \<and>
   rpc_ledger_validators_again (ex_miner\<lparr>rpc_ledger_validators_again := None\<rparr>) = None \<and>
   rpc_hbbft_perf (ex_miner\<lparr>rpc_ledger_validators_again := None\<rparr>) \<noteq> None \<and>
   LEDGER_PENALTY (snd (snd (stats (ex_config\<lparr>ALL_PENALTIES := True\<rparr>) ex_host
       (ex_miner\<lparr>rpc_ledger_validators_again := None\<rparr>) 2
       (empty_registry\<lparr>LEDGER_PENALTY := [(''ledger_penalties'', ''total'', ''N2'', ''A2'') \<mapsto> 5],
          HBBFT_PERF := [(''hbbft_perf'', ''Tenure'', ''N9'') \<mapsto> 4]\<rparr>))))
     (''ledger_penalties'', ''total'', ''N2'', ''A2'') = None \<and>
   HBBFT_PERF (snd (snd (stats (ex_config\<lparr>ALL_PENALTIES := True\<rparr>) ex_host
       (ex_miner\<lparr>rpc_ledger_validators_again := None\<rparr>) 2
       (empty_registry\<lparr>LEDGER_PENALTY := [(''ledger_penalties'', ''total'', ''N2'', ''A2'') \<mapsto> 5],
          HBBFT_PERF := [(''hbbft_perf'', ''Tenure'', ''N9'') \<mapsto> 4]\<rparr>))))
     (''hbbft_perf'', ''Tenure'', ''N9'') = Some 4 \<and>
   fst (stats (ex_config\<lparr>ALL_PENALTIES := True\<rparr>) ex_host
       (ex_miner\<lparr>rpc_ledger_validators_again := None\<rparr>) 2
       (empty_registry\<lparr>LEDGER_PENALTY := [(''ledger_penalties'', ''total'', ''N2'', ''A2'') \<mapsto> 5],
          HBBFT_PERF := [(''hbbft_perf'', ''Tenure'', ''N9'') \<mapsto> 4]\<rparr>)) = Raised AttributeError"
proof -
  let ?m = "ex_miner\<lparr>rpc_ledger_validators_again := None\<rparr>"
  let ?cfg = "ex_config\<lparr>ALL_PENALTIES := True\<rparr>"
  let ?r0 = "empty_registry\<lparr>LEDGER_PENALTY :=
               [(''ledger_penalties'', ''total'', ''N2'', ''A2'') \<mapsto> 5],
             HBBFT_PERF := [(''hbbft_perf'', ''Tenure'', ''N9'') \<mapsto> 4]\<rparr>"
  have id: "rpc_addr ?m = Some ''A1''" "rpc_name ?m = Some ''N1''"
    and ok: "COLLECT_SYSTEM_USAGE ?cfg \<longrightarrow> disk_total ex_host \<noteq> 0"
    and flag: "ALL_PENALTIES ?cfg"
    and l1: "rpc_ledger_validators ?m = Some [ex_entry, ex_entry2]"
    and l2: "rpc_ledger_validators_again ?m = None"
    and hp: "rpc_hbbft_perf ?m \<noteq> None"
    by (simp_all add: ex_miner_def ex_config_def)
  note inst = failed_ledger_fetch_clears_family [OF id ok flag l1 l2, of 2 ?r0]
  have a: "LEDGER_PENALTY (snd (snd (stats ?cfg ex_host ?m 2 ?r0)))
             (''ledger_penalties'', ''total'', ''N2'', ''A2'') = None"
    by (simp only: inst [THEN conjunct2, THEN conjunct1])
  have b: "HBBFT_PERF (snd (snd (stats ?cfg ex_host ?m 2 ?r0)))
             (''hbbft_perf'', ''Tenure'', ''N9'') = Some 4"
    by (simp only: inst [THEN conjunct2, THEN conjunct2, THEN conjunct1]) simp
  have c: "fst (stats ?cfg ex_host ?m 2 ?r0) = Raised AttributeError"
    by (rule inst [THEN conjunct2, THEN conjunct2, THEN conjunct2])
  have off: "\<not> COLLECT_SYSTEM_USAGE ?cfg" by (simp add: ex_config_def)
  from id off flag l1 l2 hp a b c show ?thesis by blast
qed

text \<open>
  C4, where the code departs from the claim. In the same situation the failed ledger
  fetch does not leave \<open>penalty_ledger\<close> unset: it holds the list of the first call.
  The cycle is aborted by the \<open>AttributeError\<close>, so neither the HBBFT samples nor the
  connection count are published although their fetches were made and may have
  returned, and the error leaves the driver loop.
\<close>

theorem failed_ledger_fetch_aborts_cycle:
  assumes "rpc_addr m = Some addr" and "rpc_name m = Some name"
    and "COLLECT_SYSTEM_USAGE cfg \<longrightarrow> disk_total h \<noteq> 0"
    and "ALL_PENALTIES cfg" and "rpc_ledger_validators m = Some l1"
    and "rpc_ledger_validators_again m = None"
  shows "penalty_ledger (fst (fetch_all cfg m addr)) = LList l1 \<and>
         Call HbbftPerf \<in> set (fst (snd (stats cfg h m elapsed r))) \<and>
         Call PeerBookSelf \<in> set (fst (snd (stats cfg h m elapsed r))) \<and>
         HBBFT_PERF (snd (snd (stats cfg h m elapsed r))) = HBBFT_PERF r \<and>
         CONNECTIONS (snd (snd (stats cfg h m elapsed r))) = CONNECTIONS r \<and>
         fst (main_loop cfg (\<lparr>cy_miner = m, cy_host = h, cy_elapsed = elapsed\<rparr> # cs) r) =
           Exited AttributeError"
proof -
  let ?f = "fst (fetch_all cfg m addr)"
  note pl = fetch_penalty_ledger_second_call_fails [OF assms(4-6), of addr]
  have f: "penalty_ledger ?f = LList l1"
    by (simp add: fetch_all_values pl)
  have calls: "Call HbbftPerf \<in> set (fst (snd (stats cfg h m elapsed r)))"
    "Call PeerBookSelf \<in> set (fst (snd (stats cfg h m elapsed r)))"
    by (simp_all add: stats_reached_publication [OF assms(1-3)] fetch_all_events soft_fetch_snd)
  have out: "fst (stats cfg h m elapsed r) = Raised AttributeError"
    by (simp add: stats_outcome assms(1-3) pl)
  have hb: "HBBFT_PERF (snd (snd (stats cfg h m elapsed r))) = HBBFT_PERF r"
    using publish_ledger_List [OF f, of cfg addr name "snd (collect_system_usage cfg h r)"]
    by (simp add: stats_reached_publication [OF assms(1-3)] observe_frame
          collect_system_usage_frame)
  have co: "CONNECTIONS (snd (snd (stats cfg h m elapsed r))) = CONNECTIONS r"
    using publish_list_connections [OF f, of cfg addr name "snd (collect_system_usage cfg h r)"]
    by (simp add: stats_reached_publication [OF assms(1-3)] frame_connections)
  have "fst (main_loop cfg (\<lparr>cy_miner = m, cy_host = h, cy_elapsed = elapsed\<rparr> # cs) r) =
          Exited AttributeError"
    using main_loop_escape [of cfg "\<lparr>cy_miner = m, cy_host = h, cy_elapsed = elapsed\<rparr>" r
            AttributeError cs] out
    by (simp del: main_loop.simps)
  with f calls hb co show ?thesis by blast
qed

theorem failed_ledger_fetch_aborts_cycle_witness:
  "rpc_addr (ex_miner\<lparr>rpc_ledger_validators_again := None\<rparr>) = Some ''A1'' \<and>
   rpc_name (ex_miner\<lparr>rpc_ledger_validators_again := None\<rparr>) = Some ''N1'' \<and>
   \<not> COLLECT_SYSTEM_USAGE (ex_config\<lparr>ALL_PENALTIES := True\<rparr>) \<and>
   ALL_PENALTIES (ex_config\<lparr>ALL_PENALTIES := True\<rparr>) \<and>
   rpc_ledger_validators (ex_miner\<lparr>rpc_ledger_validators_again := None\<rparr>) =
     Some [ex_entry, ex_entry2] \<and>
   rpc_ledger_validators_again (ex_miner\<lparr>rpc_ledger_validators_again := None\<rparr>) = None \<and>
   rpc_peer_book_self (ex_miner\<lparr>rpc_ledger_validators_again := None\<rparr>) =
     Some [\<lparr>pb_connection_count = 5, pb_sessions = [''s1'', ''s2'']\<rparr>] \<and>
   penalty_ledger (fst (fetch_all (ex_config\<lparr>ALL_PENALTIES := True\<rparr>)
       (ex_miner\<lparr>rpc_ledger_validators_again := None\<rparr>) ''A1'')) \<noteq> LNone \<and>
   CONNECTIONS (snd (snd (stats (ex_config\<lparr>ALL_PENALTIES := True\<rparr>) ex_host
       (ex_miner\<lparr>rpc_ledger_validators_again := None\<rparr>) 2 empty_registry)))
     (''connections'', ''N1'') = None \<and>
   fst (main_loop (ex_config\<lparr>ALL_PENALTIES := True\<rparr>)
         [\<lparr>cy_miner = ex_miner\<lparr>rpc_ledger_validators_again := None\<rparr>, cy_host = ex_host,
           cy_elapsed = 2\<rparr>,
          \<lparr>cy_miner = ex_miner, cy_host = ex_host, cy_elapsed = 2\<rparr>] empty_registry) =
     Exited AttributeError"
proof -
  let ?m = "ex_miner\<lparr>rpc_ledger_validators_again := None\<rparr>"
  let ?cfg = "ex_config\<lparr>ALL_PENALTIES := True\<rparr>"
  have id: "rpc_addr ?m = Some ''A1''" "rpc_name ?m = Some ''N1''"
    and ok: "COLLECT_SYSTEM_USAGE ?cfg \<longrightarrow> disk_total ex_host \<noteq> 0"
    and flag: "ALL_PENALTIES ?cfg"
    and l1: "rpc_ledger_validators ?m = Some [ex_entry, ex_entry2]"
    and l2: "rpc_ledger_validators_again ?m = None"
    and pb: "rpc_peer_book_self ?m =
               Some [\<lparr>pb_connection_count = 5, pb_sessions = [''s1'', ''s2'']\<rparr>]"
    by (simp_all add: ex_miner_def ex_config_def)
  note inst = failed_ledger_fetch_aborts_cycle [OF id ok flag l1 l2, of 2 empty_registry
      "[\<lparr>cy_miner = ex_miner, cy_host = ex_host, cy_elapsed = 2\<rparr>]"]
  have a: "penalty_ledger (fst (fetch_all ?cfg ?m ''A1'')) \<noteq> LNone"
    by (simp only: inst [THEN conjunct1]) simp
  have b: "CONNECTIONS (snd (snd (stats ?cfg ex_host ?m 2 empty_registry)))
             (''connections'', ''N1'') = None"
    by (simp only: inst [THEN conjunct2, THEN conjunct2, THEN conjunct2, THEN conjunct2,
                         THEN conjunct1])
       (simp add: empty_registry_def)
  have c: "fst (main_loop ?cfg
         [\<lparr>cy_miner = ?m, cy_host = ex_host, cy_elapsed = 2\<rparr>,
          \<lparr>cy_miner = ex_miner, cy_host = ex_host, cy_elapsed = 2\<rparr>] empty_registry) =
     Exited AttributeError"
    by (rule inst [THEN conjunct2, THEN conjunct2, THEN conjunct2, THEN conjunct2,
                   THEN conjunct2])
  have off: "\<not> COLLECT_SYSTEM_USAGE ?cfg" by (simp add: ex_config_def)
  from id off flag l1 l2 pb a b c show ?thesis by blast
qed

end
